theory Spec2Isabelle
  imports Main "HOL-Library.Sublist"
begin

section \<open>Strings\<close>

text \<open>
  Strings are lists of 8-bit characters, so \<open>length\<close> counts bytes. The escape
  character is \<open>CHR 0x1B\<close>, the backslash \<open>CHR 0x5C\<close>, the double quote
  \<open>CHR 0x22\<close> and the newline \<open>CHR 0x0A\<close>.
\<close>

text \<open>\<^verbatim>\<open>str(n)\<close> and \<^verbatim>\<open>f"{n}"\<close> for an integer: its decimal digits, with a sign.\<close>

fun digits :: "nat \<Rightarrow> string" where
  "digits n =
     (if n < 10 then [char_of (48 + n)]
      else digits (n div 10) @ [char_of (48 + n mod 10)])"

declare digits.simps [simp del]

definition str_int :: "int \<Rightarrow> string" where
  "str_int i = (if i < 0 then CHR ''-'' # digits (nat (- i)) else digits (nat i))"

text \<open>\<^verbatim>\<open>sep.join(xs)\<close>.\<close>

fun join :: "string \<Rightarrow> string list \<Rightarrow> string" where
  "join sep [] = []"
| "join sep [x] = x"
| "join sep (x # y # ys) = x @ sep @ join sep (y # ys)"

text \<open>\<^verbatim>\<open>s.split(c)\<close> for a one-character separator.\<close>

fun split :: "char \<Rightarrow> string \<Rightarrow> string list" where
  "split c [] = [] # []"
| "split c (x # xs) =
     (if x = c then [] # split c xs
      else (case split c xs of
              [] \<Rightarrow> [x] # []
            | y # ys \<Rightarrow> (x # y) # ys))"

text \<open>
  \<^verbatim>\<open>s.strip()\<close>: leading and trailing whitespace removed. The whitespace characters
  are the ASCII ones of Python's \<^verbatim>\<open>str.isspace\<close> (0x09 to 0x0D, 0x1C to 0x20).
\<close>

definition isspace :: "char \<Rightarrow> bool" where
  "isspace c =
     (let n = (of_char c :: nat) in (9 \<le> n \<and> n \<le> 13) \<or> (28 \<le> n \<and> n \<le> 32))"

definition strip :: "string \<Rightarrow> string" where
  "strip s = rev (dropWhile isspace (rev (dropWhile isspace s)))"

section \<open>The OSC8 hyperlink\<close>

text \<open>
  \<^verbatim>\<open>hyperlink(text, url)\<close>: the local \<^verbatim>\<open>osc\<close> is ESC followed by a closing
  bracket, \<^verbatim>\<open>st\<close> is ESC followed by a backslash.
\<close>

definition osc :: string where
  "osc = [CHR 0x1B, CHR '']'']"

definition st :: string where
  "st = [CHR 0x1B, CHR 0x5C]"

definition hyperlink :: "string \<Rightarrow> string \<Rightarrow> string" where
  "hyperlink text url = osc @ ''8;;'' @ url @ st @ text @ osc @ ''8;;'' @ st"

section \<open>The runtime: paths, frames and output streams\<close>

text \<open>
  \<^verbatim>\<open>pathlib.Path\<close> on a POSIX system. A path is its root (empty for a relative path,
  one slash, or two slashes when the string starts with exactly two) and its
  components; the constructor drops empty components and single dots.
\<close>

record path =
  root :: string
  parts :: "string list"

definition Path :: "string \<Rightarrow> path" where
  "Path s =
     (let n = length (takeWhile (\<lambda>c. c = CHR ''/'') s)
      in \<lparr>root = (if n = 0 then [] else if n = 2 then ''//'' else ''/''),
          parts = filter (\<lambda>p. p \<noteq> [] \<and> p \<noteq> ''.'') (split CHR ''/'' s)\<rparr>)"

text \<open>\<^verbatim>\<open>str(path)\<close>, as \<^verbatim>\<open>f"{path}"\<close> renders it.\<close>

definition str_path :: "path \<Rightarrow> string" where
  "str_path p =
     (if root p = [] \<and> parts p = [] then ''.''
      else root p @ join ''/'' (parts p))"

text \<open>
  The state of the interpreter and of the file system that the library reads: the
  working directory (its components, as \<^verbatim>\<open>os.getcwd()\<close> gives them), the symbolic
  links of the file system (the absolute path of each link, as its components, with the
  target text that \<^verbatim>\<open>os.readlink\<close> gives) and \<^verbatim>\<open>sys.tracebacklimit\<close> (\<open>None\<close>
  when the attribute is not set, which is the default).
\<close>

record runtime =
  cwd :: "string list"
  symlinks :: "(string list \<times> string) list"
  tracebacklimit :: "int option"

text \<open>
  \<^verbatim>\<open>path.resolve()\<close> is \<^verbatim>\<open>os.path.realpath\<close> of the path. Its loop walks the
  names of the path from the root (or from the working directory for a relative
  path): an empty name and a single dot are skipped, a double dot removes the last
  component (and stays at the root), a name that is not a symbolic link is appended,
  and a symbolic link is replaced by the resolution of its target, from the root when
  the target is absolute and from the directory of the link otherwise. \<open>seen\<close> holds
  the links whose targets are being resolved: meeting one of them again is a loop, and
  then the path so far and the names left are returned unresolved, with \<open>False\<close>. At
  the end \<^verbatim>\<open>abspath\<close> normalises the result lexically.
\<close>

definition isabs :: "string \<Rightarrow> bool" where
  "isabs s = (take 1 s = ''/'')"

function joinrealpath :: "(string list \<times> string) list \<Rightarrow> string list list \<Rightarrow> string list
    \<Rightarrow> string list \<Rightarrow> string list \<times> bool" where
  "joinrealpath links seen path [] = (path, True)"
| "joinrealpath links seen path (name # rest) =
     (if name = [] \<or> name = ''.'' then joinrealpath links seen path rest
      else if name = ''..'' then joinrealpath links seen (butlast path) rest
      else (let newpath = path @ [name]
            in (case map_of links newpath of
                  None \<Rightarrow> joinrealpath links seen newpath rest
                | Some target \<Rightarrow>
                    if newpath \<in> set seen then (newpath @ rest, False)
                    else (case joinrealpath links (newpath # seen)
                                 (if isabs target then [] else path)
                                 (split CHR ''/'' target) of
                            (path', ok) \<Rightarrow>
                              if ok then joinrealpath links seen path' rest
                              else (path' @ rest, False)))))"
  by pat_completeness auto
termination
proof (relation "measures [\<lambda>(links, seen, path, rest). card (fst ` set links - set seen),
                            \<lambda>(links, seen, path, rest). length rest]", goal_cases)
  case 1
  show ?case by simp
next
  case 2
  then show ?case by simp
next
  case 3
  then show ?case by simp
next
  case 4
  then show ?case by simp
next
  case (5 links seen path name rest newpath target)
  then have "newpath \<in> fst ` set links - set seen"
    by (auto dest!: map_of_SomeD intro: rev_image_eqI)
  then have "card (fst ` set links - set seen - {newpath}) < card (fst ` set links - set seen)"
    by (intro card_Diff1_less) auto
  moreover have "fst ` set links - set (newpath # seen) = fst ` set links - set seen - {newpath}"
    by auto
  ultimately show ?case by simp
next
  case 6
  then show ?case by simp
qed

declare joinrealpath.simps [simp del]

definition normalise :: "string list \<Rightarrow> string list" where
  "normalise names =
     foldl (\<lambda>acc name. if name = [] \<or> name = ''.'' then acc
                        else if name = ''..'' then butlast acc
                        else acc @ [name])
       [] names"

definition resolve :: "runtime \<Rightarrow> path \<Rightarrow> path" where
  "resolve rt p =
     \<lparr>root = ''/'',
      parts = normalise (fst (joinrealpath (symlinks rt) []
                                (if root p = [] then cwd rt else []) (parts p)))\<rparr>"

text \<open>
  \<^verbatim>\<open>traceback.FrameSummary\<close> (\<open>fs_line\<close> is \<open>None\<close> when the source text is not
  available) and the fields of \<^verbatim>\<open>inspect.FrameInfo\<close> that the library reads.
\<close>

record FrameSummary =
  fs_filename :: string
  fs_lineno :: int
  fs_name :: string
  fs_line :: "string option"

record FrameInfo =
  fi_filename :: string
  fi_lineno :: int

text \<open>
  The call context of a library function: whether the interpreter has stack frames
  (\<^verbatim>\<open>inspect.currentframe()\<close> returns \<^verbatim>\<open>None\<close> where it has not), and the
  frames of the callers, the immediate caller first. A frame object is modelled by the
  list that \<^verbatim>\<open>inspect.getouterframes\<close> makes of it: its own record, then the outer
  ones.
\<close>

record call_context =
  supports_frames :: bool
  callers :: "FrameInfo list"

definition currentframe :: "call_context \<Rightarrow> FrameInfo \<Rightarrow> FrameInfo list option" where
  "currentframe ctx own = (if supports_frames ctx then Some (own # callers ctx) else None)"

definition getouterframes :: "FrameInfo list \<Rightarrow> FrameInfo list" where
  "getouterframes frame = frame"

text \<open>
  \<^verbatim>\<open>traceback.extract_stack(f, limit)\<close>, given the frames from \<open>f\<close> outwards: a limit
  that is not given is taken from \<^verbatim>\<open>sys.tracebacklimit\<close> (a negative one counting
  as zero); a non-negative limit keeps that many frames nearest to \<open>f\<close>, a negative
  one the outermost ones; the result is ordered from the outermost frame inwards.
\<close>

definition extract_stack :: "runtime \<Rightarrow> FrameSummary list \<Rightarrow> int option \<Rightarrow> FrameSummary list" where
  "extract_stack rt frames limit =
     (let limit1 = (case limit of
                      Some l \<Rightarrow> Some l
                    | None \<Rightarrow> (case tracebacklimit rt of
                                 None \<Rightarrow> None
                               | Some l \<Rightarrow> Some (if l < 0 then 0 else l)));
          kept = (case limit1 of
                    None \<Rightarrow> frames
                  | Some l \<Rightarrow> if 0 \<le> l then take (nat l) frames
                              else drop (length frames - nat (- l)) frames)
      in rev kept)"

text \<open>
  \<^verbatim>\<open>traceback.extract_tb(tb, limit)\<close>. A traceback is the list of the summaries of
  its frames as \<^verbatim>\<open>walk_tb\<close> yields them: the frame of \<open>tb\<close> first (the outermost),
  then those of \<^verbatim>\<open>tb_next\<close>, inwards. The limit is treated as in
  \<open>extract_stack\<close>, and the order is kept.
\<close>

definition extract_tb :: "runtime \<Rightarrow> FrameSummary list \<Rightarrow> int option \<Rightarrow> FrameSummary list" where
  "extract_tb rt tb limit =
     (let limit1 = (case limit of
                      Some l \<Rightarrow> Some l
                    | None \<Rightarrow> (case tracebacklimit rt of
                                 None \<Rightarrow> None
                               | Some l \<Rightarrow> Some (if l < 0 then 0 else l)));
          kept = (case limit1 of
                    None \<Rightarrow> tb
                  | Some l \<Rightarrow> if 0 \<le> l then take (nat l) tb
                              else drop (length tb - nat (- l)) tb)
      in kept)"

text \<open>
  Output: every call of the built-in \<^verbatim>\<open>print\<close> appends one write to the log, with
  its target stream, the text written (the joined arguments and the terminator) and
  whether the stream was flushed. With no stream given it writes to standard output.
  A stream is one of the two standard ones or another file object, which carries its
  truth value (\<^verbatim>\<open>bool(file)\<close>; an object may define itself as false).
\<close>

datatype stream = Stdout | Stderr | File nat bool

fun truthy :: "stream \<Rightarrow> bool" where
  "truthy Stdout = True"
| "truthy Stderr = True"
| "truthy (File n b) = b"

record stream_write =
  w_stream :: stream
  w_data :: string
  w_flush :: bool

type_synonym io = "stream_write list"

definition builtins_print :: "string list \<Rightarrow> string \<Rightarrow> string \<Rightarrow> stream option \<Rightarrow> bool \<Rightarrow> io \<Rightarrow> io" where
  "builtins_print args sep end' file flush out =
     out @ [\<lparr>w_stream = (case file of None \<Rightarrow> Stdout | Some f \<Rightarrow> f),
              w_data = join sep args @ end',
              w_flush = flush\<rparr>]"

datatype error = RecursionError

section \<open>The module\<close>

text \<open>
  Importing the module evaluates \<^verbatim>\<open>SCHEME = os.environ.get("HYPERLINKED_SCHEME", "file")\<close>
  once; the functions take \<open>SCHEME\<close> as the default of their \<open>scheme\<close> parameter.
  \<open>module_file\<close> is the file name of the module itself, under which its own frames
  appear on the stack.
\<close>

record module =
  SCHEME :: string
  module_file :: string

definition environ_get :: "(string \<rightharpoonup> string) \<Rightarrow> string \<Rightarrow> string \<Rightarrow> string" where
  "environ_get environ key dflt = (case environ key of None \<Rightarrow> dflt | Some v \<Rightarrow> v)"

definition import_module :: "(string \<rightharpoonup> string) \<Rightarrow> string \<Rightarrow> module" where
  "import_module environ file =
     \<lparr>SCHEME = environ_get environ ''HYPERLINKED_SCHEME'' ''file'', module_file = file\<rparr>"

text \<open>The value of a \<open>scheme\<close> parameter: the argument, or the default \<open>SCHEME\<close>.\<close>

definition scheme_arg :: "module \<Rightarrow> string option \<Rightarrow> string" where
  "scheme_arg m scheme = (case scheme of None \<Rightarrow> SCHEME m | Some s \<Rightarrow> s)"

text \<open>
  \<^verbatim>\<open>hyperlink_to_path(text, path, line, scheme)\<close>; \<open>hyperlink_to_path_url\<close> is its
  local variable \<^verbatim>\<open>url\<close> at the point of the return.
\<close>

definition hyperlink_to_path_url :: "module \<Rightarrow> runtime \<Rightarrow> path \<Rightarrow> int option \<Rightarrow> string option \<Rightarrow> string" where
  "hyperlink_to_path_url m rt p line scheme =
     (let url = scheme_arg m scheme @ ''://file/'' @ str_path (resolve rt p)
      in (case line of
            None \<Rightarrow> url
          | Some l \<Rightarrow> url @ '':'' @ str_int l))"

definition hyperlink_to_path :: "module \<Rightarrow> runtime \<Rightarrow> string \<Rightarrow> path \<Rightarrow> int option \<Rightarrow> string option \<Rightarrow> string" where
  "hyperlink_to_path m rt text p line scheme =
     hyperlink text (hyperlink_to_path_url m rt p line scheme)"

text \<open>
  \<^verbatim>\<open>print(*args, sep, end, file, flush, scheme)\<close>. \<open>str\<close> is \<^verbatim>\<open>str\<close> on the
  arguments. The last statement of the source calls \<^verbatim>\<open>print\<close>, which inside the
  module is this function and not the built-in one: the call is recursive, comes from
  line 40 of the module, and passes no scheme. The first argument is the number of nested
  calls the interpreter still allows; when none is left the call raises
  \<^verbatim>\<open>RecursionError\<close>. The stream of the linked write is \<^verbatim>\<open>file or sys.stdout\<close>:
  standard output also for a file object that is false.
\<close>

fun print :: "nat \<Rightarrow> module \<Rightarrow> runtime \<Rightarrow> call_context \<Rightarrow> ('a \<Rightarrow> string) \<Rightarrow> 'a list \<Rightarrow> string \<Rightarrow> string
    \<Rightarrow> stream option \<Rightarrow> bool \<Rightarrow> string option \<Rightarrow> io \<Rightarrow> error + io" where
  "print 0 m rt ctx str args sep end' file flush scheme out = Inl RecursionError"
| "print (Suc depth) m rt ctx str args sep end' file flush scheme out =
     (case currentframe ctx \<lparr>fi_filename = module_file m, fi_lineno = 26\<rparr> of
        Some frame \<Rightarrow>
          (let caller_frame_info = getouterframes frame
           in if 2 \<le> length caller_frame_info then
                (let caller_frame = caller_frame_info ! 1
                 in Inr (builtins_print
                      [hyperlink_to_path m rt (join sep (map str args))
                         (resolve rt (Path (fi_filename caller_frame)))
                         (Some (fi_lineno caller_frame)) scheme]
                      '' '' end'
                      (Some (case file of
                               None \<Rightarrow> Stdout
                             | Some f \<Rightarrow> if truthy f then f else Stdout))
                      flush out))
              else print depth m rt
                     (ctx\<lparr>callers := \<lparr>fi_filename = module_file m, fi_lineno = 40\<rparr> # callers ctx\<rparr>)
                     str args sep end' file flush None out)
      | None \<Rightarrow>
          print depth m rt
            (ctx\<lparr>callers := \<lparr>fi_filename = module_file m, fi_lineno = 40\<rparr> # callers ctx\<rparr>)
            str args sep end' file flush None out)"

text \<open>\<^verbatim>\<open>hyperlinked(text)\<close>: it writes to no stream, so it is a function to a string.\<close>

definition hyperlinked :: "module \<Rightarrow> runtime \<Rightarrow> call_context \<Rightarrow> string \<Rightarrow> string" where
  "hyperlinked m rt ctx text =
     (case currentframe ctx \<lparr>fi_filename = module_file m, fi_lineno = 47\<rparr> of
        None \<Rightarrow> text
      | Some frame \<Rightarrow>
          (let caller_frame_info = getouterframes frame
           in if length caller_frame_info < 2 then text
              else (let caller_info = caller_frame_info ! 1
                    in hyperlink_to_path m rt text
                         (resolve rt (Path (fi_filename caller_info)))
                         (Some (fi_lineno caller_info)) None)))"

text \<open>\<^verbatim>\<open>_format_hyperlinked_frame(frame, scheme)\<close>.\<close>

definition format_hyperlinked_frame :: "module \<Rightarrow> runtime \<Rightarrow> FrameSummary \<Rightarrow> string \<Rightarrow> string" where
  "format_hyperlinked_frame m rt frame scheme =
     (let location_text =
            ''File '' @ [CHR 0x22] @ fs_filename frame @ [CHR 0x22] @ '', line ''
              @ str_int (fs_lineno frame);
          hyperlinked_location =
            hyperlink_to_path m rt location_text (Path (fs_filename frame))
              (Some (fs_lineno frame)) (Some scheme);
          line = ''  '' @ hyperlinked_location @ '', in '' @ fs_name frame @ [CHR 0x0A]
      in (case fs_line frame of
            None \<Rightarrow> line
          | Some src \<Rightarrow>
              if src = [] then line
              else line @ ''    '' @ strip src @ [CHR 0x0A]))"

text \<open>
  \<^verbatim>\<open>print_stack(f, limit, file, scheme)\<close>. \<open>own\<close> is the summary of the function's own
  frame and \<open>stack_callers\<close> those of its callers, the immediate caller first; \<open>f\<close>,
  when given, is the list of summaries from that frame outwards.
\<close>

definition print_stack :: "module \<Rightarrow> runtime \<Rightarrow> FrameSummary \<Rightarrow> FrameSummary list
    \<Rightarrow> FrameSummary list option \<Rightarrow> int option \<Rightarrow> stream option \<Rightarrow> string option \<Rightarrow> io \<Rightarrow> io" where
  "print_stack m rt own stack_callers f limit file scheme out =
     (let file1 = (case file of None \<Rightarrow> Stderr | Some s \<Rightarrow> s);
          stack = (case f of
                     None \<Rightarrow>
                       butlast (extract_stack rt (own # stack_callers)
                                  (case limit of None \<Rightarrow> None | Some l \<Rightarrow> Some (l + 1)))
                   | Some frames \<Rightarrow> extract_stack rt frames limit)
      in foldl (\<lambda>out frame.
                  builtins_print [format_hyperlinked_frame m rt frame (scheme_arg m scheme)]
                    '' '' [] (Some file1) False out)
           out stack)"

text \<open>
  \<^verbatim>\<open>excepthook(exc_type, exc_value, tb, scheme)\<close>. \<open>format_exception_only\<close> is the
  function of the standard \<^verbatim>\<open>traceback\<close> module that renders the lines naming the
  exception.
\<close>

definition excepthook :: "module \<Rightarrow> runtime \<Rightarrow> ('t \<Rightarrow> 'v \<Rightarrow> string list)
    \<Rightarrow> 't \<Rightarrow> 'v \<Rightarrow> FrameSummary list \<Rightarrow> string option \<Rightarrow> io \<Rightarrow> io" where
  "excepthook m rt format_exception_only exc_type exc_value tb scheme out =
     (let out1 = builtins_print [''Traceback (most recent call last):''] '' '' [CHR 0x0A]
                   (Some Stderr) False out;
          extracted_tb = extract_tb rt tb None;
          out2 = foldl (\<lambda>out frame.
                          builtins_print
                            [format_hyperlinked_frame m rt frame (scheme_arg m scheme)]
                            '' '' [] (Some Stderr) False out)
                   out1 extracted_tb;
          exc_lines = format_exception_only exc_type exc_value
      in foldl (\<lambda>out line. builtins_print [line] '' '' [] (Some Stderr) False out)
           out2 exc_lines)"

section \<open>The process\<close>

text \<open>
  The process that uses the library: its environment (\<^verbatim>\<open>os.environ\<close>), which the
  program can change, and the module once it is imported. The first import runs the
  body of the module, and with it the assignment of \<open>SCHEME\<close>, in the environment of
  that moment; a later import finds the module loaded and runs nothing.
\<close>

record process =
  environ :: "string \<rightharpoonup> string"
  loaded :: "module option"

definition start_process :: "(string \<rightharpoonup> string) \<Rightarrow> process" where
  "start_process env = \<lparr>environ = env, loaded = None\<rparr>"

definition putenv :: "string \<Rightarrow> string \<Rightarrow> process \<Rightarrow> process" where
  "putenv key v ps = ps\<lparr>environ := (environ ps)(key \<mapsto> v)\<rparr>"

definition unsetenv :: "string \<Rightarrow> process \<Rightarrow> process" where
  "unsetenv key ps = ps\<lparr>environ := (environ ps)(key := None)\<rparr>"

definition import_hyperlinked :: "string \<Rightarrow> process \<Rightarrow> process" where
  "import_hyperlinked file ps =
     (case loaded ps of
        Some m \<Rightarrow> ps
      | None \<Rightarrow> ps\<lparr>loaded := Some (import_module (environ ps) file)\<rparr>)"

section \<open>Properties of the hyperlink\<close>

lemma hyperlink_parts:
  "hyperlink text url = (osc @ ''8;;'' @ url @ st) @ text @ (osc @ ''8;;'' @ st)"
  by (simp add: hyperlink_def)

lemma open_sequence:
  "osc @ ''8;;'' @ url @ st
     = [CHR 0x1B, CHR '']'', CHR ''8'', CHR '';'', CHR '';''] @ url @ [CHR 0x1B, CHR 0x5C]"
  by (simp add: osc_def st_def)

lemma close_sequence:
  "osc @ ''8;;'' @ st = [CHR 0x1B, CHR '']'', CHR ''8'', CHR '';'', CHR '';'', CHR 0x1B, CHR 0x5C]"
  by (simp add: osc_def st_def)

lemma open_sequence_length: "length (osc @ ''8;;'' @ url @ st) = length url + 7"
  by (simp add: osc_def st_def)

lemma hyperlink_take_open:
  "take (length url + 7) (hyperlink text url) = osc @ ''8;;'' @ url @ st"
proof -
  have "take (length (osc @ ''8;;'' @ url @ st)) (hyperlink text url) = osc @ ''8;;'' @ url @ st"
    unfolding hyperlink_parts by (rule take_append [THEN trans]) simp
  then show ?thesis by (simp only: open_sequence_length)
qed

lemma hyperlink_drop_open:
  "drop (length url + 7) (hyperlink text url) = text @ osc @ ''8;;'' @ st"
proof -
  have "drop (length (osc @ ''8;;'' @ url @ st)) (hyperlink text url) = text @ osc @ ''8;;'' @ st"
    unfolding hyperlink_parts by (rule drop_append [THEN trans]) simp
  then show ?thesis by (simp only: open_sequence_length)
qed

lemma hyperlink_length: "length (hyperlink text url) = length text + 14 + length url"
  by (simp add: hyperlink_def osc_def st_def)

text \<open>
  C1. For every text (the empty one included) and every url, \<open>hyperlink text url\<close> is
  exactly the bytes ESC ] 8 ; ; url ESC \ text ESC ] 8 ; ; ESC \: it begins with the
  open sequence that embeds the url, ends with the close sequence, and what lies
  between them is the text as given; for the empty text the two sequences are adjacent.
\<close>

theorem hyperlink_wire_format:
  "map of_char (hyperlink text url) =
     [0x1B, 0x5D, 0x38, 0x3B, 0x3B] @ map of_char url @ [0x1B, 0x5C :: nat]
       @ map of_char text @ [0x1B, 0x5D, 0x38, 0x3B, 0x3B, 0x1B, 0x5C]
   \<and> take (length url + 7) (hyperlink text url)
       = [CHR 0x1B, CHR '']'', CHR ''8'', CHR '';'', CHR '';''] @ url @ [CHR 0x1B, CHR 0x5C]
   \<and> drop (length url + 7 + length text) (hyperlink text url)
       = [CHR 0x1B, CHR '']'', CHR ''8'', CHR '';'', CHR '';'', CHR 0x1B, CHR 0x5C]
   \<and> take (length text) (drop (length url + 7) (hyperlink text url)) = text
   \<and> hyperlink [] url
       = [CHR 0x1B, CHR '']'', CHR ''8'', CHR '';'', CHR '';''] @ url @ [CHR 0x1B, CHR 0x5C]
         @ [CHR 0x1B, CHR '']'', CHR ''8'', CHR '';'', CHR '';'', CHR 0x1B, CHR 0x5C]"
proof (intro conjI)
  show "map of_char (hyperlink text url) =
     [0x1B, 0x5D, 0x38, 0x3B, 0x3B] @ map of_char url @ [0x1B, 0x5C :: nat]
       @ map of_char text @ [0x1B, 0x5D, 0x38, 0x3B, 0x3B, 0x1B, 0x5C]"
    by (simp add: hyperlink_def osc_def st_def)
  show "take (length url + 7) (hyperlink text url)
       = [CHR 0x1B, CHR '']'', CHR ''8'', CHR '';'', CHR '';''] @ url @ [CHR 0x1B, CHR 0x5C]"
    by (simp only: hyperlink_take_open open_sequence)
  have "drop (length url + 7 + length text) (hyperlink text url)
          = drop (length text) (drop (length url + 7) (hyperlink text url))"
    by (simp add: add.commute)
  also have "\<dots> = osc @ ''8;;'' @ st"
    by (simp only: hyperlink_drop_open) simp
  finally show "drop (length url + 7 + length text) (hyperlink text url)
       = [CHR 0x1B, CHR '']'', CHR ''8'', CHR '';'', CHR '';'', CHR 0x1B, CHR 0x5C]"
    by (simp only: close_sequence)
  show "take (length text) (drop (length url + 7) (hyperlink text url)) = text"
    by (simp only: hyperlink_drop_open) simp
  show "hyperlink [] url
       = [CHR 0x1B, CHR '']'', CHR ''8'', CHR '';'', CHR '';''] @ url @ [CHR 0x1B, CHR 0x5C]
         @ [CHR 0x1B, CHR '']'', CHR ''8'', CHR '';'', CHR '';'', CHR 0x1B, CHR 0x5C]"
    by (simp add: hyperlink_def osc_def st_def)
qed

text \<open>
  C4, as stated: the length of the output is the length of the text plus 8 plus the
  length of the url. It fails for the text \<open>a\<close> and the url \<open>u\<close>: the output has 16
  bytes, not 10.
\<close>

theorem hyperlink_length_8_counterexample:
  "length (hyperlink ''a'' ''u'') = 16 \<and> length (hyperlink ''a'' ''u'') \<noteq> length ''a'' + 8 + length ''u''"
  by (simp add: hyperlink_def osc_def st_def)

text \<open>
  C4, amended: for every non-empty text and every url, the output is the open sequence
  (ESC ] 8 ; ; url ESC \), the text, and the close sequence (ESC ] 8 ; ; ESC \), in
  that order and with nothing else, and its length is the length of the text plus 14
  plus the length of the url (7 bytes around the url, 7 bytes of close sequence).
\<close>

theorem hyperlink_contains_text_length_14:
  assumes "text \<noteq> []"
  shows "hyperlink text url
           = ([CHR 0x1B, CHR '']'', CHR ''8'', CHR '';'', CHR '';''] @ url @ [CHR 0x1B, CHR 0x5C])
             @ text @ [CHR 0x1B, CHR '']'', CHR ''8'', CHR '';'', CHR '';'', CHR 0x1B, CHR 0x5C]
         \<and> sublist text (hyperlink text url)
         \<and> length (hyperlink text url) = length text + 14 + length url"
proof (intro conjI)
  show eq: "hyperlink text url
           = ([CHR 0x1B, CHR '']'', CHR ''8'', CHR '';'', CHR '';''] @ url @ [CHR 0x1B, CHR 0x5C])
             @ text @ [CHR 0x1B, CHR '']'', CHR ''8'', CHR '';'', CHR '';'', CHR 0x1B, CHR 0x5C]"
    by (simp only: hyperlink_parts open_sequence close_sequence)
  show "sublist text (hyperlink text url)"
    unfolding sublist_def using eq by blast
  show "length (hyperlink text url) = length text + 14 + length url"
    by (rule hyperlink_length)
qed

theorem hyperlink_contains_text_length_14_witness:
  "''a'' \<noteq> [] \<and> hyperlink ''a'' ''u''
      = [CHR 0x1B, CHR '']'', CHR ''8'', CHR '';'', CHR '';'', CHR ''u'', CHR 0x1B, CHR 0x5C,
         CHR ''a'', CHR 0x1B, CHR '']'', CHR ''8'', CHR '';'', CHR '';'', CHR 0x1B, CHR 0x5C]
    \<and> length (hyperlink ''a'' ''u'') = 16"
proof -
  have h: "''a'' \<noteq> []" by simp
  show ?thesis using h hyperlink_contains_text_length_14 [OF h, of "''u''"] by simp
qed

section \<open>Properties of path resolution\<close>

lemma str_path_resolve:
  "str_path (resolve rt p) = CHR ''/'' # join ''/'' (parts (resolve rt p))"
  by (simp add: str_path_def resolve_def)

lemma foldl_step_invariant:
  assumes "\<forall>c\<in>set acc. R c"
    and "\<forall>c\<in>set names. S c \<or> U c \<or> R c"
  shows "\<forall>c\<in>set (foldl (\<lambda>acc name. if S name then acc
                                     else if U name then butlast acc
                                     else acc @ [name]) acc names). R c"
  using assms
proof (induction names arbitrary: acc)
  case Nil
  then show ?case by simp
next
  case (Cons name names)
  have "\<forall>c\<in>set (if S name then acc else if U name then butlast acc else acc @ [name]). R c"
    using Cons.prems by (auto dest: in_set_butlastD)
  moreover have "\<forall>c\<in>set names. S c \<or> U c \<or> R c"
    using Cons.prems(2) by simp
  ultimately show ?case
    using Cons.IH by simp
qed

lemma normalise_invariant:
  assumes "\<forall>c\<in>set names. Q c"
  shows "\<forall>c\<in>set (normalise names). Q c \<and> c \<noteq> [] \<and> c \<noteq> ''.'' \<and> c \<noteq> ''..''"
proof -
  have "\<forall>c\<in>set ([] :: string list). Q c \<and> c \<noteq> [] \<and> c \<noteq> ''.'' \<and> c \<noteq> ''..''"
    by simp
  moreover have "\<forall>c\<in>set names. (c = [] \<or> c = ''.'') \<or> c = ''..''
      \<or> (Q c \<and> c \<noteq> [] \<and> c \<noteq> ''.'' \<and> c \<noteq> ''..'')"
    using assms by blast
  ultimately show ?thesis
    unfolding normalise_def
    by (rule foldl_step_invariant [where S = "\<lambda>c. c = [] \<or> c = ''.''" and U = "\<lambda>c. c = ''..''"])
qed

lemma normalise_no_special:
  "[] \<notin> set (normalise names) \<and> ''.'' \<notin> set (normalise names) \<and> ''..'' \<notin> set (normalise names)"
  using normalise_invariant [of names "\<lambda>c. True"] by blast

lemma split_no_separator: "c \<in> set (split x s) \<Longrightarrow> x \<notin> set c"
proof (induction s arbitrary: c)
  case Nil
  then show ?case by simp
next
  case (Cons a s)
  show ?case
  proof (cases "a = x")
    case True
    with Cons show ?thesis by auto
  next
    case False
    show ?thesis
    proof (cases "split x s")
      case Nil
      with False Cons.prems show ?thesis by simp
    next
      case (Cons y ys)
      with False Cons.prems Cons.IH [of y] Cons.IH [of c] show ?thesis by auto
    qed
  qed
qed

lemma joinrealpath_slash_free:
  assumes "\<forall>c\<in>set path. CHR ''/'' \<notin> set c" and "\<forall>c\<in>set rest. CHR ''/'' \<notin> set c"
  shows "\<forall>c\<in>set (fst (joinrealpath links seen path rest)). CHR ''/'' \<notin> set c"
  using assms
proof (induction links seen path rest rule: joinrealpath.induct)
  case (1 links seen path)
  then show ?case by (simp add: joinrealpath.simps)
next
  case (2 links seen path name rest)
  have rest: "\<forall>c\<in>set rest. CHR ''/'' \<notin> set c" and name: "CHR ''/'' \<notin> set name"
    using "2.prems" by simp_all
  have path: "\<forall>c\<in>set path. CHR ''/'' \<notin> set c"
    using "2.prems" by simp
  show ?case
  proof (cases "name = [] \<or> name = ''.''")
    case True
    then show ?thesis
      using "2.IH"(1) path rest by (simp add: joinrealpath.simps)
  next
    case skip: False
    show ?thesis
    proof (cases "name = ''..''")
      case True
      have "\<forall>c\<in>set (butlast path). CHR ''/'' \<notin> set c"
        using path by (auto dest: in_set_butlastD)
      then show ?thesis
        using "2.IH"(2) skip True rest by (simp add: joinrealpath.simps)
    next
      case up: False
      have newpath: "\<forall>c\<in>set (path @ [name]). CHR ''/'' \<notin> set c"
        using path name by simp
      show ?thesis
      proof (cases "map_of links (path @ [name])")
        case None
        then show ?thesis
          using "2.IH"(3) skip up newpath rest by (simp add: joinrealpath.simps)
      next
        case (Some target)
        show ?thesis
        proof (cases "path @ [name] \<in> set seen")
          case True
          then show ?thesis
            using skip up Some newpath rest by (simp add: joinrealpath.simps) blast
        next
          case fresh: False
          obtain path' ok where res:
            "joinrealpath links ((path @ [name]) # seen) (if isabs target then [] else path)
               (split CHR ''/'' target) = (path', ok)"
            by (cases "joinrealpath links ((path @ [name]) # seen)
                (if isabs target then [] else path) (split CHR ''/'' target)")
          have "\<forall>c\<in>set (if isabs target then [] else path). CHR ''/'' \<notin> set c"
            using path by simp
          moreover have "\<forall>c\<in>set (split CHR ''/'' target). CHR ''/'' \<notin> set c"
            by (simp add: split_no_separator)
          ultimately have
            "\<forall>c\<in>set (fst (joinrealpath links ((path @ [name]) # seen)
                 (if isabs target then [] else path) (split CHR ''/'' target))). CHR ''/'' \<notin> set c"
            using "2.IH"(4) [OF skip up refl Some fresh] by blast
          then have path': "\<forall>c\<in>set path'. CHR ''/'' \<notin> set c"
            by (simp add: res)
          show ?thesis
          proof (cases ok)
            case True
            have "\<forall>c\<in>set (fst (joinrealpath links seen path' rest)). CHR ''/'' \<notin> set c"
              using "2.IH"(5) [OF skip up refl Some fresh res [symmetric] True path' rest] .
            then show ?thesis
              using skip up Some fresh res True by (simp add: joinrealpath.simps)
          next
            case False
            then show ?thesis
              using skip up Some fresh res path' rest by (simp add: joinrealpath.simps) blast
          qed
        qed
      qed
    qed
  qed
qed

lemma resolve_components:
  "[] \<notin> set (parts (resolve rt p)) \<and> ''.'' \<notin> set (parts (resolve rt p))
   \<and> ''..'' \<notin> set (parts (resolve rt p))"
  by (simp add: resolve_def normalise_no_special)

lemma resolve_slash_free:
  assumes "\<forall>c\<in>set (cwd rt). CHR ''/'' \<notin> set c" and "\<forall>c\<in>set (parts p). CHR ''/'' \<notin> set c"
  shows "\<forall>c\<in>set (parts (resolve rt p)). c \<noteq> [] \<and> CHR ''/'' \<notin> set c"
proof
  fix c
  assume c: "c \<in> set (parts (resolve rt p))"
  have start: "\<forall>c\<in>set (if root p = [] then cwd rt else []). CHR ''/'' \<notin> set c"
    using assms(1) by simp
  have walked: "\<forall>c\<in>set (fst (joinrealpath (symlinks rt) []
        (if root p = [] then cwd rt else []) (parts p))). CHR ''/'' \<notin> set c"
    using start assms(2) by (rule joinrealpath_slash_free)
  have normal: "\<forall>c\<in>set (normalise (fst (joinrealpath (symlinks rt) []
        (if root p = [] then cwd rt else []) (parts p)))).
      CHR ''/'' \<notin> set c \<and> c \<noteq> [] \<and> c \<noteq> ''.'' \<and> c \<noteq> ''..''"
    using walked by (rule normalise_invariant)
  have "parts (resolve rt p) = normalise (fst (joinrealpath (symlinks rt) []
        (if root p = [] then cwd rt else []) (parts p)))"
    by (simp add: resolve_def)
  with c have "c \<in> set (normalise (fst (joinrealpath (symlinks rt) []
        (if root p = [] then cwd rt else []) (parts p))))"
    by (simp only:)
  with normal have "CHR ''/'' \<notin> set c \<and> c \<noteq> [] \<and> c \<noteq> ''.'' \<and> c \<noteq> ''..''"
    by (rule bspec)
  then show "c \<noteq> [] \<and> CHR ''/'' \<notin> set c"
    by (elim conjE) (rule conjI)
qed

lemma sublist_slash_free_prefix:
  "CHR ''/'' \<notin> set c \<Longrightarrow> sublist ''//'' (c @ r) = sublist ''//'' r"
  by (induction c) (auto simp: sublist_Cons_right prefix_Cons)

lemma join_no_double_slash:
  "\<forall>c\<in>set cs. c \<noteq> [] \<and> CHR ''/'' \<notin> set c \<Longrightarrow> \<not> sublist ''//'' (CHR ''/'' # join ''/'' cs)"
proof (induction cs)
  case Nil
  show ?case by (simp add: sublist_Cons_right prefix_Cons)
next
  case (Cons c cs)
  from Cons.prems obtain a as where c: "c = a # as" and a: "a \<noteq> CHR ''/''"
    and as: "CHR ''/'' \<notin> set as"
    by (cases c) auto
  have free: "CHR ''/'' \<notin> set c"
    using Cons.prems by simp
  show ?case
  proof (cases cs)
    case Nil
    have "sublist ''//'' (c @ []) = sublist ''//'' []"
      using free by (rule sublist_slash_free_prefix)
    then show ?thesis
      using Nil c a by (simp add: sublist_Cons_right prefix_Cons)
  next
    case (Cons d ds)
    have "join ''/'' (c # cs) = c @ CHR ''/'' # join ''/'' cs"
      using Cons by simp
    moreover have "sublist ''//'' (c @ CHR ''/'' # join ''/'' cs)
        = sublist ''//'' (CHR ''/'' # join ''/'' cs)"
      using free by (rule sublist_slash_free_prefix)
    moreover have "\<not> sublist ''//'' (CHR ''/'' # join ''/'' cs)"
      using Cons.IH Cons.prems by simp
    ultimately show ?thesis
      using c a by (simp add: sublist_Cons_right prefix_Cons)
  qed
qed

lemma resolve_no_double_slash:
  assumes "\<forall>c\<in>set (cwd rt). CHR ''/'' \<notin> set c" and "\<forall>c\<in>set (parts p). CHR ''/'' \<notin> set c"
  shows "\<not> sublist ''//'' (str_path (resolve rt p))"
  unfolding str_path_resolve
  by (rule join_no_double_slash) (rule resolve_slash_free [OF assms])

lemma Path_slash_free: "\<forall>c\<in>set (parts (Path s)). CHR ''/'' \<notin> set c"
  by (auto simp: Path_def Let_def dest: split_no_separator)

lemma Path_tmp_a_py: "Path ''/tmp/a.py'' = \<lparr>root = ''/'', parts = [''tmp'', ''a.py'']\<rparr>"
  by (simp add: Path_def)

lemma resolve_tmp_a_py:
  assumes "map_of (symlinks rt) [''tmp''] = None"
    and "map_of (symlinks rt) [''tmp'', ''a.py''] = None"
  shows "str_path (resolve rt (Path ''/tmp/a.py'')) = ''/tmp/a.py''"
  using assms
  by (simp add: Path_tmp_a_py resolve_def joinrealpath.simps normalise_def str_path_def)

lemma resolve_link_a_py:
  "str_path (resolve \<lparr>cwd = [''home''], symlinks = [([''link''], ''/tmp'')], tracebacklimit = None\<rparr>
      (Path ''/link/a.py'')) = ''/tmp/a.py''"
  by (simp add: Path_def resolve_def joinrealpath.simps isabs_def normalise_def str_path_def)

section \<open>Properties of the URL\<close>

lemma str_int_42: "str_int 42 = ''42''"
  by code_simp

lemma url_tmp_a_py_42:
  assumes "map_of (symlinks rt) [''tmp''] = None"
    and "map_of (symlinks rt) [''tmp'', ''a.py''] = None"
  shows "hyperlink_to_path_url m rt (Path ''/tmp/a.py'') (Some 42) (Some ''vscode'')
     = ''vscode://file//tmp/a.py:42''"
  by (simp add: hyperlink_to_path_url_def scheme_arg_def resolve_tmp_a_py [OF assms] str_int_42)

text \<open>
  C2, as stated: the URL is the scheme, \<open>://file/\<close> and the absolute path with no
  double slash after the scheme separator, so that the path \<open>/tmp/a.py\<close> with line 42
  and scheme \<open>vscode\<close> gives \<open>vscode://file/tmp/a.py:42\<close>. The code puts the slash
  of \<open>://file/\<close> before the resolved path, which begins with a slash itself: on a file
  system without symbolic links the URL is \<open>vscode://file//tmp/a.py:42\<close>, with a
  double slash after \<open>file\<close>.
\<close>

theorem url_single_slash_counterexample:
  "hyperlink_to_path_url \<lparr>SCHEME = ''file'', module_file = ''/lib/hyperlinked/__init__.py''\<rparr>
       \<lparr>cwd = [''home''], symlinks = [], tracebacklimit = None\<rparr> (Path ''/tmp/a.py'') (Some 42) (Some ''vscode'')
     = ''vscode://file//tmp/a.py:42''
   \<and> hyperlink_to_path_url \<lparr>SCHEME = ''file'', module_file = ''/lib/hyperlinked/__init__.py''\<rparr>
       \<lparr>cwd = [''home''], symlinks = [], tracebacklimit = None\<rparr> (Path ''/tmp/a.py'') (Some 42) (Some ''vscode'')
     \<noteq> ''vscode://file/tmp/a.py:42''
   \<and> sublist ''//''
        (drop (length ''vscode://'')
           (hyperlink_to_path_url
              \<lparr>SCHEME = ''file'', module_file = ''/lib/hyperlinked/__init__.py''\<rparr>
              \<lparr>cwd = [''home''], symlinks = [], tracebacklimit = None\<rparr> (Path ''/tmp/a.py'')
              (Some 42) (Some ''vscode'')))"
  by (simp add: url_tmp_a_py_42 sublist_Cons_right prefix_Cons)

text \<open>
  C2, amended: for every path, scheme and optional line number, the URL built by
  \<open>hyperlink_to_path\<close> is the scheme, then \<open>://file/\<close>, then the fully resolved
  absolute path (symbolic links followed), then a colon and the decimal line number
  when a line is given and nothing when none is. The resolved path begins with a slash
  of its own, so the URL reads \<open>scheme://file//...\<close>, with one double slash after
  \<open>file\<close>; the resolved path itself adds none: it has no empty, dot or double-dot
  component and, its components and those of the working directory being free of
  slashes as those of every constructed path are, contains no double slash. For
  \<open>/tmp/a.py\<close>, line 42 and scheme \<open>vscode\<close>, where neither \<open>/tmp\<close> nor
  \<open>/tmp/a.py\<close> is a symbolic link, the URL is \<open>vscode://file//tmp/a.py:42\<close>.
\<close>

theorem hyperlink_to_path_url_shape:
  "hyperlink_to_path_url m rt p None scheme
     = scheme_arg m scheme @ ''://file/'' @ str_path (resolve rt p)
   \<and> hyperlink_to_path_url m rt p (Some l) scheme
     = scheme_arg m scheme @ ''://file/'' @ str_path (resolve rt p) @ '':'' @ str_int l
   \<and> scheme_arg m (Some s) = s
   \<and> str_path (resolve rt p) = CHR ''/'' # join ''/'' (parts (resolve rt p))
   \<and> [] \<notin> set (parts (resolve rt p))
   \<and> ''.'' \<notin> set (parts (resolve rt p))
   \<and> ''..'' \<notin> set (parts (resolve rt p))
   \<and> hyperlink_to_path_url m rt p None (Some s)
     = s @ ''://file//'' @ join ''/'' (parts (resolve rt p))
   \<and> hyperlink_to_path_url m rt p (Some l) (Some s)
     = s @ ''://file//'' @ join ''/'' (parts (resolve rt p)) @ '':'' @ str_int l
   \<and> ((\<forall>c\<in>set (cwd rt). CHR ''/'' \<notin> set c) \<and> (\<forall>c\<in>set (parts p). CHR ''/'' \<notin> set c)
        \<longrightarrow> \<not> sublist ''//'' (str_path (resolve rt p))
            \<and> (\<forall>c\<in>set (parts (resolve rt p)). c \<noteq> [] \<and> CHR ''/'' \<notin> set c))
   \<and> (\<forall>c\<in>set (parts (Path fn)). CHR ''/'' \<notin> set c)
   \<and> hyperlink_to_path m rt text p line scheme
     = hyperlink text (hyperlink_to_path_url m rt p line scheme)
   \<and> (map_of (symlinks rt) [''tmp''] = None \<and> map_of (symlinks rt) [''tmp'', ''a.py''] = None
        \<longrightarrow> hyperlink_to_path_url m rt (Path ''/tmp/a.py'') (Some 42) (Some ''vscode'')
              = ''vscode://file//tmp/a.py:42'')"
proof (intro conjI impI)
  show "hyperlink_to_path_url m rt p None scheme
     = scheme_arg m scheme @ ''://file/'' @ str_path (resolve rt p)"
    by (simp add: hyperlink_to_path_url_def)
  show "hyperlink_to_path_url m rt p (Some l) scheme
     = scheme_arg m scheme @ ''://file/'' @ str_path (resolve rt p) @ '':'' @ str_int l"
    by (simp add: hyperlink_to_path_url_def)
  show "scheme_arg m (Some s) = s"
    by (simp add: scheme_arg_def)
  show "str_path (resolve rt p) = CHR ''/'' # join ''/'' (parts (resolve rt p))"
    by (rule str_path_resolve)
  show "[] \<notin> set (parts (resolve rt p))" "''.'' \<notin> set (parts (resolve rt p))"
    "''..'' \<notin> set (parts (resolve rt p))"
    using resolve_components [of rt p] by simp_all
  show "hyperlink_to_path_url m rt p None (Some s)
     = s @ ''://file//'' @ join ''/'' (parts (resolve rt p))"
    by (simp add: hyperlink_to_path_url_def scheme_arg_def str_path_resolve)
  show "hyperlink_to_path_url m rt p (Some l) (Some s)
     = s @ ''://file//'' @ join ''/'' (parts (resolve rt p)) @ '':'' @ str_int l"
    by (simp add: hyperlink_to_path_url_def scheme_arg_def str_path_resolve)
  show "\<forall>c\<in>set (parts (Path fn)). CHR ''/'' \<notin> set c"
    by (rule Path_slash_free)
  show "hyperlink_to_path m rt text p line scheme
     = hyperlink text (hyperlink_to_path_url m rt p line scheme)"
    by (simp add: hyperlink_to_path_def)
next
  assume "(\<forall>c\<in>set (cwd rt). CHR ''/'' \<notin> set c) \<and> (\<forall>c\<in>set (parts p). CHR ''/'' \<notin> set c)"
  then have cwd: "\<forall>c\<in>set (cwd rt). CHR ''/'' \<notin> set c"
    and parts: "\<forall>c\<in>set (parts p). CHR ''/'' \<notin> set c"
    by simp_all
  show "\<not> sublist ''//'' (str_path (resolve rt p))"
    using cwd parts by (rule resolve_no_double_slash)
  show "\<forall>c\<in>set (parts (resolve rt p)). c \<noteq> [] \<and> CHR ''/'' \<notin> set c"
    using cwd parts by (rule resolve_slash_free)
next
  assume "map_of (symlinks rt) [''tmp''] = None \<and> map_of (symlinks rt) [''tmp'', ''a.py''] = None"
  then show "hyperlink_to_path_url m rt (Path ''/tmp/a.py'') (Some 42) (Some ''vscode'')
              = ''vscode://file//tmp/a.py:42''"
    by (simp add: url_tmp_a_py_42)
qed

theorem hyperlink_to_path_url_shape_witness:
  "map_of [([''link''], ''/tmp'')] [''tmp''] = None
   \<and> map_of [([''link''], ''/tmp'')] [''tmp'', ''a.py''] = None
   \<and> str_path (resolve \<lparr>cwd = [''home''], symlinks = [([''link''], ''/tmp'')], tracebacklimit = None\<rparr>
        (Path ''/link/a.py'')) = ''/tmp/a.py''
   \<and> \<not> sublist ''//''
        (str_path (resolve \<lparr>cwd = [''home''], symlinks = [([''link''], ''/tmp'')], tracebacklimit = None\<rparr>
           (Path ''/link/a.py'')))
   \<and> hyperlink_to_path_url \<lparr>SCHEME = ''file'', module_file = ''/lib/hyperlinked/__init__.py''\<rparr>
        \<lparr>cwd = [''home''], symlinks = [([''link''], ''/tmp'')], tracebacklimit = None\<rparr>
        (Path ''/link/a.py'') None (Some ''vscode'')
      = ''vscode://file//tmp/a.py''
   \<and> hyperlink_to_path_url \<lparr>SCHEME = ''file'', module_file = ''/lib/hyperlinked/__init__.py''\<rparr>
        \<lparr>cwd = [''home''], symlinks = [([''link''], ''/tmp'')], tracebacklimit = None\<rparr>
        (Path ''/tmp/a.py'') (Some 42) (Some ''vscode'')
      = ''vscode://file//tmp/a.py:42''"
proof -
  let ?m = "\<lparr>SCHEME = ''file'', module_file = ''/lib/hyperlinked/__init__.py''\<rparr>"
  let ?rt = "\<lparr>cwd = [''home''], symlinks = [([''link''], ''/tmp'')], tracebacklimit = None\<rparr>"
  have cwd: "\<forall>c\<in>set (cwd ?rt). CHR ''/'' \<notin> set c"
    by simp
  have parts: "\<forall>c\<in>set (parts (Path ''/link/a.py'')). CHR ''/'' \<notin> set c"
    by (rule Path_slash_free)
  have links: "map_of (symlinks ?rt) [''tmp''] = None \<and> map_of (symlinks ?rt) [''tmp'', ''a.py''] = None"
    by simp
  note shape = hyperlink_to_path_url_shape
      [where m = ?m and rt = ?rt and p = "Path ''/link/a.py''" and s = "''vscode''"]
  have no_slash: "\<not> sublist ''//'' (str_path (resolve ?rt (Path ''/link/a.py'')))"
    using shape cwd parts by blast
  have url42: "hyperlink_to_path_url ?m ?rt (Path ''/tmp/a.py'') (Some 42) (Some ''vscode'')
      = ''vscode://file//tmp/a.py:42''"
    using shape links by blast
  have "hyperlink_to_path_url ?m ?rt (Path ''/link/a.py'') None (Some ''vscode'')
      = ''vscode'' @ ''://file/'' @ str_path (resolve ?rt (Path ''/link/a.py''))"
    using shape by (simp add: scheme_arg_def)
  then have url: "hyperlink_to_path_url ?m ?rt (Path ''/link/a.py'') None (Some ''vscode'')
      = ''vscode://file//tmp/a.py''"
    by (simp add: resolve_link_a_py)
  show ?thesis
    using no_slash url42 url by (simp add: resolve_link_a_py)
qed

section \<open>Properties of the hyperlink wrap helper\<close>

text \<open>
  C6. When \<open>hyperlinked\<close> is called where no caller frame exists (the interpreter gives
  no current frame, or there is no frame outside the function's own), it returns the
  text it was given, unchanged. The function has no access to an output stream: its
  only result is the string.
\<close>

theorem hyperlinked_no_caller_frame:
  assumes "\<not> supports_frames ctx \<or> callers ctx = []"
  shows "hyperlinked m rt ctx text = text"
  using assms
  by (auto simp: hyperlinked_def currentframe_def getouterframes_def)

theorem hyperlinked_no_caller_frame_witness:
  "callers \<lparr>supports_frames = True, callers = []\<rparr> = []
   \<and> hyperlinked \<lparr>SCHEME = ''file'', module_file = ''/lib/hyperlinked/__init__.py''\<rparr>
        \<lparr>cwd = [''home''], symlinks = [], tracebacklimit = None\<rparr>
        \<lparr>supports_frames = True, callers = []\<rparr> ''x'' = ''x''
   \<and> supports_frames
        \<lparr>supports_frames = False, callers = [\<lparr>fi_filename = ''m.py'', fi_lineno = 7\<rparr>]\<rparr>
       = False
   \<and> hyperlinked \<lparr>SCHEME = ''file'', module_file = ''/lib/hyperlinked/__init__.py''\<rparr>
        \<lparr>cwd = [''home''], symlinks = [], tracebacklimit = None\<rparr>
        \<lparr>supports_frames = False, callers = [\<lparr>fi_filename = ''m.py'', fi_lineno = 7\<rparr>]\<rparr>
        ''x'' = ''x''"
proof -
  have h1: "\<not> supports_frames \<lparr>supports_frames = True, callers = []\<rparr>
      \<or> callers \<lparr>supports_frames = True, callers = []\<rparr> = []"
    by simp
  have h2: "\<not> supports_frames
        \<lparr>supports_frames = False, callers = [\<lparr>fi_filename = ''m.py'', fi_lineno = 7\<rparr>]\<rparr>
      \<or> callers
        \<lparr>supports_frames = False, callers = [\<lparr>fi_filename = ''m.py'', fi_lineno = 7\<rparr>]\<rparr>
        = []"
    by simp
  show ?thesis
    using hyperlinked_no_caller_frame [OF h1, of
        "\<lparr>SCHEME = ''file'', module_file = ''/lib/hyperlinked/__init__.py''\<rparr>"
        "\<lparr>cwd = [''home''], symlinks = [], tracebacklimit = None\<rparr>" "''x''"]
      hyperlinked_no_caller_frame [OF h2, of
        "\<lparr>SCHEME = ''file'', module_file = ''/lib/hyperlinked/__init__.py''\<rparr>"
        "\<lparr>cwd = [''home''], symlinks = [], tracebacklimit = None\<rparr>" "''x''"]
    by simp
qed

section \<open>Properties of the default scheme\<close>

lemma print_default_scheme:
  "print depth m rt ctx str args sep end' file flush None out
     = print depth m rt ctx str args sep end' file flush (Some (SCHEME m)) out"
proof (cases depth)
  case 0
  then show ?thesis by simp
next
  case (Suc depth')
  then show ?thesis
    by (simp add: currentframe_def getouterframes_def Let_def hyperlink_to_path_def
        hyperlink_to_path_url_def scheme_arg_def)
qed

lemma format_hyperlinked_frame_eq:
  "format_hyperlinked_frame m rt frame scheme =
     ''  '' @ hyperlink
        (''File '' @ [CHR 0x22] @ fs_filename frame @ [CHR 0x22] @ '', line ''
           @ str_int (fs_lineno frame))
        (scheme @ ''://file/'' @ str_path (resolve rt (Path (fs_filename frame))) @ '':''
           @ str_int (fs_lineno frame))
      @ '', in '' @ fs_name frame @ [CHR 0x0A]
      @ (case fs_line frame of
           None \<Rightarrow> []
         | Some src \<Rightarrow> if src = [] then [] else ''    '' @ strip src @ [CHR 0x0A])"
  by (simp add: format_hyperlinked_frame_def hyperlink_to_path_def hyperlink_to_path_url_def
      scheme_arg_def split: option.splits)

lemma foldl_builtins_print:
  "foldl (\<lambda>out x. builtins_print [g x] sep [] (Some s) False out) out xs
     = out @ map (\<lambda>x. \<lparr>w_stream = s, w_data = g x, w_flush = False\<rparr>) xs"
  by (induction xs arbitrary: out) (simp_all add: builtins_print_def)

lemma extract_tb_default:
  "extract_tb rt tb None = (case tracebacklimit rt of None \<Rightarrow> tb | Some l \<Rightarrow> take (nat l) tb)"
  by (simp add: extract_tb_def split: option.splits)

lemma excepthook_eq:
  "excepthook m rt format_exception_only exc_type exc_value tb scheme out =
     out
     @ [\<lparr>w_stream = Stderr, w_data = ''Traceback (most recent call last):'' @ [CHR 0x0A],
          w_flush = False\<rparr>]
     @ map (\<lambda>frame. \<lparr>w_stream = Stderr,
                      w_data = format_hyperlinked_frame m rt frame (scheme_arg m scheme),
                      w_flush = False\<rparr>)
         (case tracebacklimit rt of None \<Rightarrow> tb | Some l \<Rightarrow> take (nat l) tb)
     @ map (\<lambda>line. \<lparr>w_stream = Stderr, w_data = line, w_flush = False\<rparr>)
         (format_exception_only exc_type exc_value)"
  unfolding excepthook_def Let_def foldl_builtins_print extract_tb_default
  by (simp add: builtins_print_def)

lemma url_default_tmp_a_py:
  "hyperlink_to_path_url \<lparr>SCHEME = ''vscode'', module_file = ''/lib/hyperlinked/__init__.py''\<rparr>
       \<lparr>cwd = [''home''], symlinks = [], tracebacklimit = None\<rparr> (Path ''/tmp/a.py'') None None
     = ''vscode://file//tmp/a.py''"
  by (simp add: hyperlink_to_path_url_def scheme_arg_def resolve_tmp_a_py)

text \<open>
  C9, as stated: with \<open>HYPERLINKED_SCHEME\<close> unset at process start the default scheme
  is \<open>file\<close>, the variable being read at process start. The code reads it when the
  module is imported. A process that starts with the variable unset, sets it to
  \<open>vscode\<close> and then imports the library has \<open>vscode\<close> as its default scheme, and a
  URL built without a scheme argument begins with \<open>vscode\<close>.
\<close>

theorem default_scheme_process_start_counterexample:
  "environ (start_process Map.empty) ''HYPERLINKED_SCHEME'' = None
   \<and> loaded (import_hyperlinked ''/lib/hyperlinked/__init__.py''
        (putenv ''HYPERLINKED_SCHEME'' ''vscode'' (start_process Map.empty)))
     = Some \<lparr>SCHEME = ''vscode'', module_file = ''/lib/hyperlinked/__init__.py''\<rparr>
   \<and> hyperlink_to_path_url \<lparr>SCHEME = ''vscode'', module_file = ''/lib/hyperlinked/__init__.py''\<rparr>
       \<lparr>cwd = [''home''], symlinks = [], tracebacklimit = None\<rparr> (Path ''/tmp/a.py'') None None
     = ''vscode://file//tmp/a.py''"
  by (simp add: start_process_def putenv_def import_hyperlinked_def import_module_def
      environ_get_def url_default_tmp_a_py)

text \<open>
  C9, amended: when \<open>HYPERLINKED_SCHEME\<close> is unset at the moment the module is first
  imported, the default scheme used by every operation that receives no scheme
  argument is exactly \<open>file\<close>; when it is set at that moment, its value is that
  default. The value is read once, at that import: a later change of the environment
  and a later import leave the default as it is, and no operation of the library takes
  or returns the module, so none changes it. The default is the scheme of the URL that
  \<open>hyperlink_to_path\<close>, \<open>print\<close>, \<open>hyperlinked\<close>, \<open>print_stack\<close> and \<open>excepthook\<close>
  build when called without a scheme.
\<close>

theorem default_scheme_from_environment:
  "loaded (import_hyperlinked file
      \<lparr>environ = env(''HYPERLINKED_SCHEME'' := None), loaded = None\<rparr>)
     = Some \<lparr>SCHEME = ''file'', module_file = file\<rparr>
   \<and> loaded (import_hyperlinked file
      \<lparr>environ = env(''HYPERLINKED_SCHEME'' \<mapsto> v), loaded = None\<rparr>)
     = Some \<lparr>SCHEME = v, module_file = file\<rparr>
   \<and> loaded (import_hyperlinked file' (putenv key w (import_hyperlinked file (start_process env))))
     = loaded (import_hyperlinked file (start_process env))
   \<and> loaded (import_hyperlinked file' (unsetenv key (import_hyperlinked file (start_process env))))
     = loaded (import_hyperlinked file (start_process env))
   \<and> hyperlink_to_path_url (import_module (env(''HYPERLINKED_SCHEME'' := None)) file) rt p None None
     = ''file://file/'' @ str_path (resolve rt p)
   \<and> hyperlink_to_path_url m rt p None None = SCHEME m @ ''://file/'' @ str_path (resolve rt p)
   \<and> hyperlink_to_path_url m rt p (Some l) None
     = SCHEME m @ ''://file/'' @ str_path (resolve rt p) @ '':'' @ str_int l
   \<and> hyperlink_to_path m rt text p line None
     = hyperlink text (hyperlink_to_path_url m rt p line None)
   \<and> print (Suc depth) m rt \<lparr>supports_frames = True, callers = c # cs\<rparr> str args sep end'
       stream flush None out
     = Inr (out @ [\<lparr>w_stream = (case stream of
                                None \<Rightarrow> Stdout
                              | Some f \<Rightarrow> if truthy f then f else Stdout),
                   w_data = hyperlink (join sep (map str args))
                              (SCHEME m @ ''://file/''
                                 @ str_path (resolve rt (resolve rt (Path (fi_filename c))))
                                 @ '':'' @ str_int (fi_lineno c))
                            @ end',
                   w_flush = flush\<rparr>])
   \<and> hyperlinked m rt \<lparr>supports_frames = True, callers = c # cs\<rparr> text
     = hyperlink text
         (SCHEME m @ ''://file/'' @ str_path (resolve rt (resolve rt (Path (fi_filename c))))
            @ '':'' @ str_int (fi_lineno c))
   \<and> print_stack m rt own stack_callers f limit stream None out
     = out @ map (\<lambda>frame. \<lparr>w_stream = (case stream of None \<Rightarrow> Stderr | Some s \<Rightarrow> s),
                           w_data = format_hyperlinked_frame m rt frame (SCHEME m),
                           w_flush = False\<rparr>)
               (case f of
                  None \<Rightarrow>
                    butlast (extract_stack rt (own # stack_callers)
                               (case limit of None \<Rightarrow> None | Some l \<Rightarrow> Some (l + 1)))
                | Some frames \<Rightarrow> extract_stack rt frames limit)
   \<and> excepthook m rt format_exception_only exc_type exc_value tb None out
     = out
       @ [\<lparr>w_stream = Stderr, w_data = ''Traceback (most recent call last):'' @ [CHR 0x0A],
            w_flush = False\<rparr>]
       @ map (\<lambda>frame. \<lparr>w_stream = Stderr,
                        w_data = format_hyperlinked_frame m rt frame (SCHEME m),
                        w_flush = False\<rparr>)
           (case tracebacklimit rt of None \<Rightarrow> tb | Some l \<Rightarrow> take (nat l) tb)
       @ map (\<lambda>line. \<lparr>w_stream = Stderr, w_data = line, w_flush = False\<rparr>)
           (format_exception_only exc_type exc_value)
   \<and> format_hyperlinked_frame m rt frame (SCHEME m)
     = ''  '' @ hyperlink
          (''File '' @ [CHR 0x22] @ fs_filename frame @ [CHR 0x22] @ '', line ''
             @ str_int (fs_lineno frame))
          (SCHEME m @ ''://file/'' @ str_path (resolve rt (Path (fs_filename frame))) @ '':''
             @ str_int (fs_lineno frame))
        @ '', in '' @ fs_name frame @ [CHR 0x0A]
        @ (case fs_line frame of
             None \<Rightarrow> []
           | Some src \<Rightarrow> if src = [] then [] else ''    '' @ strip src @ [CHR 0x0A])"
proof (intro conjI)
  show "loaded (import_hyperlinked file
      \<lparr>environ = env(''HYPERLINKED_SCHEME'' := None), loaded = None\<rparr>)
     = Some \<lparr>SCHEME = ''file'', module_file = file\<rparr>"
    by (simp add: import_hyperlinked_def import_module_def environ_get_def)
  show "loaded (import_hyperlinked file
      \<lparr>environ = env(''HYPERLINKED_SCHEME'' \<mapsto> v), loaded = None\<rparr>)
     = Some \<lparr>SCHEME = v, module_file = file\<rparr>"
    by (simp add: import_hyperlinked_def import_module_def environ_get_def)
  show "loaded (import_hyperlinked file' (putenv key w (import_hyperlinked file (start_process env))))
     = loaded (import_hyperlinked file (start_process env))"
    by (simp add: import_hyperlinked_def putenv_def start_process_def)
  show "loaded (import_hyperlinked file' (unsetenv key (import_hyperlinked file (start_process env))))
     = loaded (import_hyperlinked file (start_process env))"
    by (simp add: import_hyperlinked_def unsetenv_def start_process_def)
  show "hyperlink_to_path_url (import_module (env(''HYPERLINKED_SCHEME'' := None)) file) rt p
      None None = ''file://file/'' @ str_path (resolve rt p)"
    by (simp add: hyperlink_to_path_url_def scheme_arg_def import_module_def environ_get_def)
  show "hyperlink_to_path_url m rt p None None = SCHEME m @ ''://file/'' @ str_path (resolve rt p)"
    by (simp add: hyperlink_to_path_url_def scheme_arg_def)
  show "hyperlink_to_path_url m rt p (Some l) None
     = SCHEME m @ ''://file/'' @ str_path (resolve rt p) @ '':'' @ str_int l"
    by (simp add: hyperlink_to_path_url_def scheme_arg_def)
  show "hyperlink_to_path m rt text p line None
     = hyperlink text (hyperlink_to_path_url m rt p line None)"
    by (simp add: hyperlink_to_path_def)
  show "print (Suc depth) m rt \<lparr>supports_frames = True, callers = c # cs\<rparr> str args sep end'
       stream flush None out
     = Inr (out @ [\<lparr>w_stream = (case stream of
                                None \<Rightarrow> Stdout
                              | Some f \<Rightarrow> if truthy f then f else Stdout),
                   w_data = hyperlink (join sep (map str args))
                              (SCHEME m @ ''://file/''
                                 @ str_path (resolve rt (resolve rt (Path (fi_filename c))))
                                 @ '':'' @ str_int (fi_lineno c))
                            @ end',
                   w_flush = flush\<rparr>])"
    by (simp add: currentframe_def getouterframes_def builtins_print_def hyperlink_to_path_def
        hyperlink_to_path_url_def scheme_arg_def)
  show "hyperlinked m rt \<lparr>supports_frames = True, callers = c # cs\<rparr> text
     = hyperlink text
         (SCHEME m @ ''://file/'' @ str_path (resolve rt (resolve rt (Path (fi_filename c))))
            @ '':'' @ str_int (fi_lineno c))"
    by (simp add: hyperlinked_def currentframe_def getouterframes_def hyperlink_to_path_def
        hyperlink_to_path_url_def scheme_arg_def)
  show "print_stack m rt own stack_callers f limit stream None out
     = out @ map (\<lambda>frame. \<lparr>w_stream = (case stream of None \<Rightarrow> Stderr | Some s \<Rightarrow> s),
                           w_data = format_hyperlinked_frame m rt frame (SCHEME m),
                           w_flush = False\<rparr>)
               (case f of
                  None \<Rightarrow>
                    butlast (extract_stack rt (own # stack_callers)
                               (case limit of None \<Rightarrow> None | Some l \<Rightarrow> Some (l + 1)))
                | Some frames \<Rightarrow> extract_stack rt frames limit)"
    unfolding print_stack_def Let_def foldl_builtins_print
    by (simp add: scheme_arg_def)
  show "excepthook m rt format_exception_only exc_type exc_value tb None out
     = out
       @ [\<lparr>w_stream = Stderr, w_data = ''Traceback (most recent call last):'' @ [CHR 0x0A],
            w_flush = False\<rparr>]
       @ map (\<lambda>frame. \<lparr>w_stream = Stderr,
                        w_data = format_hyperlinked_frame m rt frame (SCHEME m),
                        w_flush = False\<rparr>)
           (case tracebacklimit rt of None \<Rightarrow> tb | Some l \<Rightarrow> take (nat l) tb)
       @ map (\<lambda>line. \<lparr>w_stream = Stderr, w_data = line, w_flush = False\<rparr>)
           (format_exception_only exc_type exc_value)"
    unfolding excepthook_def Let_def foldl_builtins_print extract_tb_default
    by (simp add: builtins_print_def scheme_arg_def)
  show "format_hyperlinked_frame m rt frame (SCHEME m)
     = ''  '' @ hyperlink
          (''File '' @ [CHR 0x22] @ fs_filename frame @ [CHR 0x22] @ '', line ''
             @ str_int (fs_lineno frame))
          (SCHEME m @ ''://file/'' @ str_path (resolve rt (Path (fs_filename frame))) @ '':''
             @ str_int (fs_lineno frame))
        @ '', in '' @ fs_name frame @ [CHR 0x0A]
        @ (case fs_line frame of
             None \<Rightarrow> []
           | Some src \<Rightarrow> if src = [] then [] else ''    '' @ strip src @ [CHR 0x0A])"
    by (simp add: format_hyperlinked_frame_def hyperlink_to_path_def hyperlink_to_path_url_def
        scheme_arg_def split: option.splits)
qed

section \<open>Properties of the exception hook\<close>

text \<open>
  C7, as stated: for every traceback, every frame of it is written. The frames come
  from \<^verbatim>\<open>traceback.extract_tb\<close>, which keeps only the first \<^verbatim>\<open>sys.tracebacklimit\<close>
  frames when that attribute is set: with the limit 0 and a traceback of one frame the
  hook writes the header and the exception line, and no frame.
\<close>

theorem excepthook_every_frame_counterexample:
  "excepthook \<lparr>SCHEME = ''file'', module_file = ''/lib/hyperlinked/__init__.py''\<rparr>
      \<lparr>cwd = [''home''], symlinks = [], tracebacklimit = Some 0\<rparr>
      (\<lambda>exc_type exc_value. [''ValueError: boom'' @ [CHR 0x0A]]) () ()
      [\<lparr>fs_filename = ''/tmp/a.py'', fs_lineno = 42, fs_name = ''f'', fs_line = None\<rparr>]
      None []
     = [\<lparr>w_stream = Stderr, w_data = ''Traceback (most recent call last):'' @ [CHR 0x0A],
          w_flush = False\<rparr>,
        \<lparr>w_stream = Stderr, w_data = ''ValueError: boom'' @ [CHR 0x0A], w_flush = False\<rparr>]"
  by (simp add: excepthook_eq)

text \<open>
  C7, amended: for every exception type, exception value and traceback, \<open>excepthook\<close>
  writes to standard error, in this order and nothing else: the header line
  \<open>Traceback (most recent call last):\<close>; then, for every frame of the traceback from
  the outermost inwards (all of them when \<^verbatim>\<open>sys.tracebacklimit\<close> is not set, as by
  default, and only the first \<^verbatim>\<open>sys.tracebacklimit\<close> of them when it is), the
  hyperlinked frame format: two spaces, \<open>File "<path>", line <n>\<close> linked to the
  resolved path and the line, \<open>, in <function>\<close>, a newline, and the indented stripped
  source line when there is one; then the lines that the standard formatter renders for
  the exception type and value. Its only result is the output written.
\<close>

theorem excepthook_output:
  "excepthook m rt format_exception_only exc_type exc_value tb scheme out =
     out
     @ [\<lparr>w_stream = Stderr, w_data = ''Traceback (most recent call last):'' @ [CHR 0x0A],
          w_flush = False\<rparr>]
     @ map (\<lambda>frame.
              \<lparr>w_stream = Stderr,
                w_data =
                  ''  '' @ hyperlink
                     (''File '' @ [CHR 0x22] @ fs_filename frame @ [CHR 0x22] @ '', line ''
                        @ str_int (fs_lineno frame))
                     ((case scheme of None \<Rightarrow> SCHEME m | Some s \<Rightarrow> s) @ ''://file/''
                        @ str_path (resolve rt (Path (fs_filename frame))) @ '':''
                        @ str_int (fs_lineno frame))
                   @ '', in '' @ fs_name frame @ [CHR 0x0A]
                   @ (case fs_line frame of
                        None \<Rightarrow> []
                      | Some src \<Rightarrow>
                          if src = [] then [] else ''    '' @ strip src @ [CHR 0x0A]),
                w_flush = False\<rparr>)
         (case tracebacklimit rt of None \<Rightarrow> tb | Some l \<Rightarrow> take (nat l) tb)
     @ map (\<lambda>line. \<lparr>w_stream = Stderr, w_data = line, w_flush = False\<rparr>)
         (format_exception_only exc_type exc_value)
   \<and> excepthook m (rt\<lparr>tracebacklimit := None\<rparr>) format_exception_only exc_type exc_value tb
       scheme out =
     out
     @ [\<lparr>w_stream = Stderr, w_data = ''Traceback (most recent call last):'' @ [CHR 0x0A],
          w_flush = False\<rparr>]
     @ map (\<lambda>frame.
              \<lparr>w_stream = Stderr,
                w_data = format_hyperlinked_frame m (rt\<lparr>tracebacklimit := None\<rparr>) frame
                           (case scheme of None \<Rightarrow> SCHEME m | Some s \<Rightarrow> s),
                w_flush = False\<rparr>)
         tb
     @ map (\<lambda>line. \<lparr>w_stream = Stderr, w_data = line, w_flush = False\<rparr>)
         (format_exception_only exc_type exc_value)"
proof (intro conjI)
  have fmt: "format_hyperlinked_frame m rt frame s =
      ''  '' @ hyperlink
         (''File '' @ [CHR 0x22] @ fs_filename frame @ [CHR 0x22] @ '', line ''
            @ str_int (fs_lineno frame))
         (s @ ''://file/'' @ str_path (resolve rt (Path (fs_filename frame))) @ '':''
            @ str_int (fs_lineno frame))
       @ '', in '' @ fs_name frame @ [CHR 0x0A]
       @ (case fs_line frame of
            None \<Rightarrow> []
          | Some src \<Rightarrow> if src = [] then [] else ''    '' @ strip src @ [CHR 0x0A])"
    for frame s
    by (simp add: format_hyperlinked_frame_def hyperlink_to_path_def hyperlink_to_path_url_def
        scheme_arg_def split: option.splits)
  have hook: "excepthook m rt' format_exception_only exc_type exc_value tb scheme out =
     out
     @ [\<lparr>w_stream = Stderr, w_data = ''Traceback (most recent call last):'' @ [CHR 0x0A],
          w_flush = False\<rparr>]
     @ map (\<lambda>frame. \<lparr>w_stream = Stderr,
                      w_data = format_hyperlinked_frame m rt' frame
                                 (case scheme of None \<Rightarrow> SCHEME m | Some s \<Rightarrow> s),
                      w_flush = False\<rparr>)
         (case tracebacklimit rt' of None \<Rightarrow> tb | Some l \<Rightarrow> take (nat l) tb)
     @ map (\<lambda>line. \<lparr>w_stream = Stderr, w_data = line, w_flush = False\<rparr>)
         (format_exception_only exc_type exc_value)"
    for rt'
    unfolding excepthook_def Let_def foldl_builtins_print extract_tb_default
    by (simp add: builtins_print_def scheme_arg_def)
  show "excepthook m rt format_exception_only exc_type exc_value tb scheme out =
     out
     @ [\<lparr>w_stream = Stderr, w_data = ''Traceback (most recent call last):'' @ [CHR 0x0A],
          w_flush = False\<rparr>]
     @ map (\<lambda>frame.
              \<lparr>w_stream = Stderr,
                w_data =
                  ''  '' @ hyperlink
                     (''File '' @ [CHR 0x22] @ fs_filename frame @ [CHR 0x22] @ '', line ''
                        @ str_int (fs_lineno frame))
                     ((case scheme of None \<Rightarrow> SCHEME m | Some s \<Rightarrow> s) @ ''://file/''
                        @ str_path (resolve rt (Path (fs_filename frame))) @ '':''
                        @ str_int (fs_lineno frame))
                   @ '', in '' @ fs_name frame @ [CHR 0x0A]
                   @ (case fs_line frame of
                        None \<Rightarrow> []
                      | Some src \<Rightarrow>
                          if src = [] then [] else ''    '' @ strip src @ [CHR 0x0A]),
                w_flush = False\<rparr>)
         (case tracebacklimit rt of None \<Rightarrow> tb | Some l \<Rightarrow> take (nat l) tb)
     @ map (\<lambda>line. \<lparr>w_stream = Stderr, w_data = line, w_flush = False\<rparr>)
         (format_exception_only exc_type exc_value)"
    by (simp only: hook fmt)
  show "excepthook m (rt\<lparr>tracebacklimit := None\<rparr>) format_exception_only exc_type exc_value tb
       scheme out =
     out
     @ [\<lparr>w_stream = Stderr, w_data = ''Traceback (most recent call last):'' @ [CHR 0x0A],
          w_flush = False\<rparr>]
     @ map (\<lambda>frame.
              \<lparr>w_stream = Stderr,
                w_data = format_hyperlinked_frame m (rt\<lparr>tracebacklimit := None\<rparr>) frame
                           (case scheme of None \<Rightarrow> SCHEME m | Some s \<Rightarrow> s),
                w_flush = False\<rparr>)
         tb
     @ map (\<lambda>line. \<lparr>w_stream = Stderr, w_data = line, w_flush = False\<rparr>)
         (format_exception_only exc_type exc_value)"
    by (simp add: hook)
qed

section \<open>Properties of the frame formatter\<close>

lemma frame_tmp_a_py:
  "format_hyperlinked_frame m \<lparr>cwd = [''home''], symlinks = [], tracebacklimit = None\<rparr>
      \<lparr>fs_filename = ''/tmp/a.py'', fs_lineno = 42, fs_name = ''f'', fs_line = None\<rparr> ''file''
     = ''  '' @ hyperlink (''File '' @ [CHR 0x22] @ ''/tmp/a.py'' @ [CHR 0x22] @ '', line 42'')
                 ''file://file//tmp/a.py:42''
       @ '', in f'' @ [CHR 0x0A]"
  by (simp add: format_hyperlinked_frame_eq resolve_tmp_a_py str_int_42)

text \<open>
  C5, as stated: the whole string \<open>File "<path>", line <n>, in <function>\<close> is the text
  of the hyperlink. For the frame of function \<open>f\<close> at line 42 of \<open>/tmp/a.py\<close> the output
  is two spaces, the link around \<open>File "/tmp/a.py", line 42\<close> only, and then
  \<open>, in f\<close> after the close sequence: it nowhere contains the hyperlink of the whole
  string.
\<close>

theorem frame_link_whole_counterexample:
  "format_hyperlinked_frame
      \<lparr>SCHEME = ''file'', module_file = ''/lib/hyperlinked/__init__.py''\<rparr>
      \<lparr>cwd = [''home''], symlinks = [], tracebacklimit = None\<rparr>
      \<lparr>fs_filename = ''/tmp/a.py'', fs_lineno = 42, fs_name = ''f'', fs_line = None\<rparr> ''file''
     = ''  '' @ hyperlink (''File '' @ [CHR 0x22] @ ''/tmp/a.py'' @ [CHR 0x22] @ '', line 42'')
                 ''file://file//tmp/a.py:42''
       @ '', in f'' @ [CHR 0x0A]
   \<and> \<not> sublist
         (hyperlink (''File '' @ [CHR 0x22] @ ''/tmp/a.py'' @ [CHR 0x22] @ '', line 42, in f'')
            ''file://file//tmp/a.py:42'')
         (format_hyperlinked_frame
            \<lparr>SCHEME = ''file'', module_file = ''/lib/hyperlinked/__init__.py''\<rparr>
            \<lparr>cwd = [''home''], symlinks = [], tracebacklimit = None\<rparr>
            \<lparr>fs_filename = ''/tmp/a.py'', fs_lineno = 42, fs_name = ''f'', fs_line = None\<rparr>
            ''file'')"
proof (intro conjI)
  show "format_hyperlinked_frame
      \<lparr>SCHEME = ''file'', module_file = ''/lib/hyperlinked/__init__.py''\<rparr>
      \<lparr>cwd = [''home''], symlinks = [], tracebacklimit = None\<rparr>
      \<lparr>fs_filename = ''/tmp/a.py'', fs_lineno = 42, fs_name = ''f'', fs_line = None\<rparr> ''file''
     = ''  '' @ hyperlink (''File '' @ [CHR 0x22] @ ''/tmp/a.py'' @ [CHR 0x22] @ '', line 42'')
                 ''file://file//tmp/a.py:42''
       @ '', in f'' @ [CHR 0x0A]"
    by (rule frame_tmp_a_py)
  show "\<not> sublist
         (hyperlink (''File '' @ [CHR 0x22] @ ''/tmp/a.py'' @ [CHR 0x22] @ '', line 42, in f'')
            ''file://file//tmp/a.py:42'')
         (format_hyperlinked_frame
            \<lparr>SCHEME = ''file'', module_file = ''/lib/hyperlinked/__init__.py''\<rparr>
            \<lparr>cwd = [''home''], symlinks = [], tracebacklimit = None\<rparr>
            \<lparr>fs_filename = ''/tmp/a.py'', fs_lineno = 42, fs_name = ''f'', fs_line = None\<rparr>
            ''file'')"
    unfolding frame_tmp_a_py
    by (simp add: hyperlink_def osc_def st_def sublist_Cons_right prefix_Cons)
qed

text \<open>
  C5, amended: for every stack frame summary, the frame formatter produces two spaces,
  then the string \<open>File "<path>", line <n>\<close> hyperlinked to the frame's file and line,
  then \<open>, in <function>\<close> outside the hyperlink and a newline; a second line of four
  spaces, the stripped source-line text and a newline follows when the source text is
  present and not empty; when the source text is unavailable (or empty) the result is
  the location line only.
\<close>

theorem frame_format_lines:
  "format_hyperlinked_frame m rt (frame\<lparr>fs_line := None\<rparr>) scheme
     = ''  '' @ hyperlink
          (''File '' @ [CHR 0x22] @ fs_filename frame @ [CHR 0x22] @ '', line ''
             @ str_int (fs_lineno frame))
          (hyperlink_to_path_url m rt (Path (fs_filename frame)) (Some (fs_lineno frame))
             (Some scheme))
       @ '', in '' @ fs_name frame @ [CHR 0x0A]
   \<and> format_hyperlinked_frame m rt (frame\<lparr>fs_line := Some []\<rparr>) scheme
     = format_hyperlinked_frame m rt (frame\<lparr>fs_line := None\<rparr>) scheme
   \<and> format_hyperlinked_frame m rt (frame\<lparr>fs_line := Some (c # cs)\<rparr>) scheme
     = format_hyperlinked_frame m rt (frame\<lparr>fs_line := None\<rparr>) scheme
       @ ''    '' @ strip (c # cs) @ [CHR 0x0A]"
  by (simp add: format_hyperlinked_frame_def hyperlink_to_path_def)

text \<open>
  C10. In every frame line that the formatter produces, the visible text shows the file
  name as the frame summary records it, and the URL of the hyperlink holds the resolved
  absolute form of that path; when the recorded name is relative (it does not begin
  with a slash) the two differ.
\<close>

theorem frame_shows_recorded_links_resolved:
  "(\<exists>rest. format_hyperlinked_frame m rt frame scheme
      = ''  '' @ hyperlink
          (''File '' @ [CHR 0x22] @ fs_filename frame @ [CHR 0x22] @ '', line ''
             @ str_int (fs_lineno frame))
          (scheme @ ''://file/'' @ str_path (resolve rt (Path (fs_filename frame))) @ '':''
             @ str_int (fs_lineno frame))
        @ rest)
   \<and> (take 1 (fs_filename frame) \<noteq> ''/''
        \<longrightarrow> str_path (resolve rt (Path (fs_filename frame))) \<noteq> fs_filename frame)"
proof (intro conjI impI)
  show "\<exists>rest. format_hyperlinked_frame m rt frame scheme
      = ''  '' @ hyperlink
          (''File '' @ [CHR 0x22] @ fs_filename frame @ [CHR 0x22] @ '', line ''
             @ str_int (fs_lineno frame))
          (scheme @ ''://file/'' @ str_path (resolve rt (Path (fs_filename frame))) @ '':''
             @ str_int (fs_lineno frame))
        @ rest"
  proof -
    have "format_hyperlinked_frame m rt frame scheme =
        ''  '' @ hyperlink
           (''File '' @ [CHR 0x22] @ fs_filename frame @ [CHR 0x22] @ '', line ''
              @ str_int (fs_lineno frame))
           (scheme @ ''://file/'' @ str_path (resolve rt (Path (fs_filename frame))) @ '':''
              @ str_int (fs_lineno frame))
         @ ('', in '' @ fs_name frame @ [CHR 0x0A]
            @ (case fs_line frame of
                 None \<Rightarrow> []
               | Some src \<Rightarrow> if src = [] then [] else ''    '' @ strip src @ [CHR 0x0A]))"
      by (simp add: format_hyperlinked_frame_def hyperlink_to_path_def hyperlink_to_path_url_def
          scheme_arg_def split: option.splits)
    then show ?thesis
      by blast
  qed
  assume rel: "take 1 (fs_filename frame) \<noteq> ''/''"
  have "take 1 (str_path (resolve rt (Path (fs_filename frame)))) = ''/''"
    by (simp add: str_path_resolve)
  with rel show "str_path (resolve rt (Path (fs_filename frame))) \<noteq> fs_filename frame"
    by metis
qed

lemma resolve_a_py:
  "str_path (resolve \<lparr>cwd = [''home'', ''u''], symlinks = [], tracebacklimit = None\<rparr> (Path ''a.py''))
     = ''/home/u/a.py''"
  by (simp add: Path_def resolve_def joinrealpath.simps normalise_def str_path_def)

theorem frame_shows_recorded_links_resolved_witness:
  "take 1 (fs_filename \<lparr>fs_filename = ''a.py'', fs_lineno = 42, fs_name = ''f'', fs_line = None\<rparr>)
     \<noteq> ''/''
   \<and> str_path (resolve \<lparr>cwd = [''home'', ''u''], symlinks = [], tracebacklimit = None\<rparr>
        (Path (fs_filename
           \<lparr>fs_filename = ''a.py'', fs_lineno = 42, fs_name = ''f'', fs_line = None\<rparr>)))
     \<noteq> fs_filename \<lparr>fs_filename = ''a.py'', fs_lineno = 42, fs_name = ''f'', fs_line = None\<rparr>
   \<and> format_hyperlinked_frame
        \<lparr>SCHEME = ''file'', module_file = ''/lib/hyperlinked/__init__.py''\<rparr>
        \<lparr>cwd = [''home'', ''u''], symlinks = [], tracebacklimit = None\<rparr>
        \<lparr>fs_filename = ''a.py'', fs_lineno = 42, fs_name = ''f'', fs_line = None\<rparr> ''file''
     = ''  '' @ hyperlink (''File '' @ [CHR 0x22] @ ''a.py'' @ [CHR 0x22] @ '', line 42'')
                 ''file://file//home/u/a.py:42''
       @ '', in f'' @ [CHR 0x0A]"
proof -
  have h: "take 1 (fs_filename
      \<lparr>fs_filename = ''a.py'', fs_lineno = 42, fs_name = ''f'', fs_line = None\<rparr>) \<noteq> ''/''"
    by simp
  have fmt: "format_hyperlinked_frame
        \<lparr>SCHEME = ''file'', module_file = ''/lib/hyperlinked/__init__.py''\<rparr>
        \<lparr>cwd = [''home'', ''u''], symlinks = [], tracebacklimit = None\<rparr>
        \<lparr>fs_filename = ''a.py'', fs_lineno = 42, fs_name = ''f'', fs_line = None\<rparr> ''file''
     = ''  '' @ hyperlink (''File '' @ [CHR 0x22] @ ''a.py'' @ [CHR 0x22] @ '', line 42'')
                 ''file://file//home/u/a.py:42''
       @ '', in f'' @ [CHR 0x0A]"
    by (simp add: format_hyperlinked_frame_eq resolve_a_py str_int_42)
  from frame_shows_recorded_links_resolved
        [of "\<lparr>SCHEME = ''file'', module_file = ''/lib/hyperlinked/__init__.py''\<rparr>"
            "\<lparr>cwd = [''home'', ''u''], symlinks = [], tracebacklimit = None\<rparr>"
            "\<lparr>fs_filename = ''a.py'', fs_lineno = 42, fs_name = ''f'', fs_line = None\<rparr>"
            "''file''"]
  have "str_path (resolve \<lparr>cwd = [''home'', ''u''], symlinks = [], tracebacklimit = None\<rparr>
        (Path (fs_filename
           \<lparr>fs_filename = ''a.py'', fs_lineno = 42, fs_name = ''f'', fs_line = None\<rparr>)))
     \<noteq> fs_filename \<lparr>fs_filename = ''a.py'', fs_lineno = 42, fs_name = ''f'', fs_line = None\<rparr>"
    using h by blast
  with h fmt show ?thesis by blast
qed

section \<open>Properties of the stack dump\<close>

lemma extract_stack_segment:
  "\<exists>j k. butlast (extract_stack rt (own # cs) limit) = rev (take k (drop j cs))"
proof -
  define limit1 where "limit1 =
    (case limit of
       Some l \<Rightarrow> Some l
     | None \<Rightarrow> (case tracebacklimit rt of
                  None \<Rightarrow> None
                | Some l \<Rightarrow> Some (if l < 0 then 0 else l)))"
  define kept where "kept =
    (case limit1 of
       None \<Rightarrow> own # cs
     | Some l \<Rightarrow> if 0 \<le> l then take (nat l) (own # cs)
                 else drop (length (own # cs) - nat (- l)) (own # cs))"
  have stack: "butlast (extract_stack rt (own # cs) limit) = rev (tl kept)"
    by (simp add: extract_stack_def Let_def kept_def limit1_def)
  have "\<exists>j k. tl kept = take k (drop j cs)"
  proof (cases limit1)
    case None
    then have "tl kept = take (length cs) (drop 0 cs)"
      by (simp add: kept_def)
    then show ?thesis by blast
  next
    case (Some l)
    show ?thesis
    proof (cases "0 \<le> l")
      case True
      then have "tl kept = take (nat l - 1) (drop 0 cs)"
        using Some by (simp add: kept_def take_Cons')
      then show ?thesis by blast
    next
      case False
      then have "tl kept = take (length cs) (drop (Suc (length cs) - nat (- l)) cs)"
        using Some by (simp add: kept_def drop_Cons' tl_drop drop_Suc [symmetric] Suc_diff_le)
      then show ?thesis by blast
    qed
  qed
  then show ?thesis
    unfolding stack by metis
qed

lemma extract_stack_limit:
  "0 \<le> n \<Longrightarrow> butlast (extract_stack rt (own # cs) (Some (n + 1))) = rev (take (nat n) cs)"
  by (simp add: extract_stack_def Let_def take_Cons' nat_add_distrib)

lemma extract_stack_all:
  "tracebacklimit rt = None \<Longrightarrow> butlast (extract_stack rt (own # cs) None) = rev cs"
  by (simp add: extract_stack_def)

text \<open>
  C8. Called without a starting frame, \<open>print_stack\<close> writes frames of its callers
  only, never its own frame: a contiguous run of the callers' frames, outermost first.
  With a limit \<open>n\<close> (a frame count, so not negative) these are the \<open>n\<close> callers
  nearest to the call, or all of them when there are fewer, so at most \<open>n\<close> writes are
  made; with no limit (and no \<open>sys.tracebacklimit\<close>) they are all the callers. With a
  starting frame the frames are those that \<open>extract_stack\<close> gives for it. In each case
  every frame is written as the frame formatter renders it, in the order of the
  runtime (outermost first), to the given stream, or to standard error when none is
  given.
\<close>

theorem print_stack_frames:
  "(\<exists>j k. print_stack m rt own stack_callers None limit file scheme out
       = out @ map (\<lambda>frame. \<lparr>w_stream = (case file of None \<Rightarrow> Stderr | Some s \<Rightarrow> s),
                             w_data = format_hyperlinked_frame m rt frame (scheme_arg m scheme),
                             w_flush = False\<rparr>)
                 (rev (take k (drop j stack_callers))))
   \<and> (0 \<le> n \<longrightarrow>
        print_stack m rt own stack_callers None (Some n) file scheme out
          = out @ map (\<lambda>frame. \<lparr>w_stream = (case file of None \<Rightarrow> Stderr | Some s \<Rightarrow> s),
                                w_data = format_hyperlinked_frame m rt frame (scheme_arg m scheme),
                                w_flush = False\<rparr>)
                    (rev (take (nat n) stack_callers))
        \<and> length (print_stack m rt own stack_callers None (Some n) file scheme out)
            \<le> length out + nat n)
   \<and> (tracebacklimit rt = None \<longrightarrow>
        print_stack m rt own stack_callers None None file scheme out
          = out @ map (\<lambda>frame. \<lparr>w_stream = (case file of None \<Rightarrow> Stderr | Some s \<Rightarrow> s),
                                w_data = format_hyperlinked_frame m rt frame (scheme_arg m scheme),
                                w_flush = False\<rparr>)
                    (rev stack_callers))
   \<and> print_stack m rt own stack_callers (Some frames) limit file scheme out
       = out @ map (\<lambda>frame. \<lparr>w_stream = (case file of None \<Rightarrow> Stderr | Some s \<Rightarrow> s),
                             w_data = format_hyperlinked_frame m rt frame (scheme_arg m scheme),
                             w_flush = False\<rparr>)
                 (extract_stack rt frames limit)"
proof (intro conjI impI)
  obtain j k where
    "butlast (extract_stack rt (own # stack_callers)
       (case limit of None \<Rightarrow> None | Some l \<Rightarrow> Some (l + 1)))
     = rev (take k (drop j stack_callers))"
    using extract_stack_segment by blast
  then have "print_stack m rt own stack_callers None limit file scheme out
       = out @ map (\<lambda>frame. \<lparr>w_stream = (case file of None \<Rightarrow> Stderr | Some s \<Rightarrow> s),
                             w_data = format_hyperlinked_frame m rt frame (scheme_arg m scheme),
                             w_flush = False\<rparr>)
                 (rev (take k (drop j stack_callers)))"
    unfolding print_stack_def Let_def foldl_builtins_print
    by simp
  then show "\<exists>j k. print_stack m rt own stack_callers None limit file scheme out
       = out @ map (\<lambda>frame. \<lparr>w_stream = (case file of None \<Rightarrow> Stderr | Some s \<Rightarrow> s),
                             w_data = format_hyperlinked_frame m rt frame (scheme_arg m scheme),
                             w_flush = False\<rparr>)
                 (rev (take k (drop j stack_callers)))"
    by blast
next
  assume n: "0 \<le> n"
  show eq: "print_stack m rt own stack_callers None (Some n) file scheme out
          = out @ map (\<lambda>frame. \<lparr>w_stream = (case file of None \<Rightarrow> Stderr | Some s \<Rightarrow> s),
                                w_data = format_hyperlinked_frame m rt frame (scheme_arg m scheme),
                                w_flush = False\<rparr>)
                    (rev (take (nat n) stack_callers))"
    unfolding print_stack_def Let_def foldl_builtins_print
    by (simp add: extract_stack_limit [OF n])
  show "length (print_stack m rt own stack_callers None (Some n) file scheme out)
            \<le> length out + nat n"
    unfolding eq by simp
next
  assume "tracebacklimit rt = None"
  then show "print_stack m rt own stack_callers None None file scheme out
          = out @ map (\<lambda>frame. \<lparr>w_stream = (case file of None \<Rightarrow> Stderr | Some s \<Rightarrow> s),
                                w_data = format_hyperlinked_frame m rt frame (scheme_arg m scheme),
                                w_flush = False\<rparr>)
                    (rev stack_callers)"
    unfolding print_stack_def Let_def foldl_builtins_print
    by (simp add: extract_stack_all)
next
  show "print_stack m rt own stack_callers (Some frames) limit file scheme out
       = out @ map (\<lambda>frame. \<lparr>w_stream = (case file of None \<Rightarrow> Stderr | Some s \<Rightarrow> s),
                             w_data = format_hyperlinked_frame m rt frame (scheme_arg m scheme),
                             w_flush = False\<rparr>)
                 (extract_stack rt frames limit)"
    unfolding print_stack_def Let_def foldl_builtins_print
    by simp
qed

theorem print_stack_frames_witness:
  "(0::int) \<le> 2
   \<and> tracebacklimit \<lparr>cwd = [''home'', ''u''], symlinks = [], tracebacklimit = None\<rparr> = None
   \<and> map w_stream
       (print_stack \<lparr>SCHEME = ''file'', module_file = ''/lib/hyperlinked/__init__.py''\<rparr>
          \<lparr>cwd = [''home'', ''u''], symlinks = [], tracebacklimit = None\<rparr>
          \<lparr>fs_filename = ''/lib/hyperlinked/__init__.py'', fs_lineno = 97,
             fs_name = ''print_stack'', fs_line = None\<rparr>
          [\<lparr>fs_filename = ''c.py'', fs_lineno = 3, fs_name = ''h'', fs_line = None\<rparr>,
           \<lparr>fs_filename = ''b.py'', fs_lineno = 2, fs_name = ''g'', fs_line = None\<rparr>,
           \<lparr>fs_filename = ''a.py'', fs_lineno = 1, fs_name = ''f'', fs_line = None\<rparr>]
          None (Some 2) None (Some ''file'') [])
     = [Stderr, Stderr]
   \<and> map w_data
       (print_stack \<lparr>SCHEME = ''file'', module_file = ''/lib/hyperlinked/__init__.py''\<rparr>
          \<lparr>cwd = [''home'', ''u''], symlinks = [], tracebacklimit = None\<rparr>
          \<lparr>fs_filename = ''/lib/hyperlinked/__init__.py'', fs_lineno = 97,
             fs_name = ''print_stack'', fs_line = None\<rparr>
          [\<lparr>fs_filename = ''c.py'', fs_lineno = 3, fs_name = ''h'', fs_line = None\<rparr>,
           \<lparr>fs_filename = ''b.py'', fs_lineno = 2, fs_name = ''g'', fs_line = None\<rparr>,
           \<lparr>fs_filename = ''a.py'', fs_lineno = 1, fs_name = ''f'', fs_line = None\<rparr>]
          None (Some 2) None (Some ''file'') [])
     = [format_hyperlinked_frame
          \<lparr>SCHEME = ''file'', module_file = ''/lib/hyperlinked/__init__.py''\<rparr>
          \<lparr>cwd = [''home'', ''u''], symlinks = [], tracebacklimit = None\<rparr>
          \<lparr>fs_filename = ''b.py'', fs_lineno = 2, fs_name = ''g'', fs_line = None\<rparr> ''file'',
        format_hyperlinked_frame
          \<lparr>SCHEME = ''file'', module_file = ''/lib/hyperlinked/__init__.py''\<rparr>
          \<lparr>cwd = [''home'', ''u''], symlinks = [], tracebacklimit = None\<rparr>
          \<lparr>fs_filename = ''c.py'', fs_lineno = 3, fs_name = ''h'', fs_line = None\<rparr> ''file'']"
proof -
  have h: "(0::int) \<le> 2"
    by simp
  have t: "tracebacklimit \<lparr>cwd = [''home'', ''u''], symlinks = [], tracebacklimit = None\<rparr> = None"
    by simp
  have two: "nat 2 = Suc (Suc 0)"
    by simp
  from print_stack_frames
        [of "\<lparr>SCHEME = ''file'', module_file = ''/lib/hyperlinked/__init__.py''\<rparr>"
            "\<lparr>cwd = [''home'', ''u''], symlinks = [], tracebacklimit = None\<rparr>"
            "\<lparr>fs_filename = ''/lib/hyperlinked/__init__.py'', fs_lineno = 97,
               fs_name = ''print_stack'', fs_line = None\<rparr>"
            "[\<lparr>fs_filename = ''c.py'', fs_lineno = 3, fs_name = ''h'', fs_line = None\<rparr>,
              \<lparr>fs_filename = ''b.py'', fs_lineno = 2, fs_name = ''g'', fs_line = None\<rparr>,
              \<lparr>fs_filename = ''a.py'', fs_lineno = 1, fs_name = ''f'', fs_line = None\<rparr>]"
            _ None "Some ''file''" "[]" 2]
  have "print_stack \<lparr>SCHEME = ''file'', module_file = ''/lib/hyperlinked/__init__.py''\<rparr>
          \<lparr>cwd = [''home'', ''u''], symlinks = [], tracebacklimit = None\<rparr>
          \<lparr>fs_filename = ''/lib/hyperlinked/__init__.py'', fs_lineno = 97,
             fs_name = ''print_stack'', fs_line = None\<rparr>
          [\<lparr>fs_filename = ''c.py'', fs_lineno = 3, fs_name = ''h'', fs_line = None\<rparr>,
           \<lparr>fs_filename = ''b.py'', fs_lineno = 2, fs_name = ''g'', fs_line = None\<rparr>,
           \<lparr>fs_filename = ''a.py'', fs_lineno = 1, fs_name = ''f'', fs_line = None\<rparr>]
          None (Some 2) None (Some ''file'') []
     = [] @ map (\<lambda>frame. \<lparr>w_stream = (case None of None \<Rightarrow> Stderr | Some s \<Rightarrow> s),
             w_data = format_hyperlinked_frame
                \<lparr>SCHEME = ''file'', module_file = ''/lib/hyperlinked/__init__.py''\<rparr>
                \<lparr>cwd = [''home'', ''u''], symlinks = [], tracebacklimit = None\<rparr> frame
                (scheme_arg \<lparr>SCHEME = ''file'', module_file = ''/lib/hyperlinked/__init__.py''\<rparr>
                   (Some ''file'')),
             w_flush = False\<rparr>)
          (rev (take (nat 2)
             [\<lparr>fs_filename = ''c.py'', fs_lineno = 3, fs_name = ''h'', fs_line = None\<rparr>,
              \<lparr>fs_filename = ''b.py'', fs_lineno = 2, fs_name = ''g'', fs_line = None\<rparr>,
              \<lparr>fs_filename = ''a.py'', fs_lineno = 1, fs_name = ''f'', fs_line = None\<rparr>]))"
    using h by blast
  then show ?thesis
    unfolding two by (simp add: scheme_arg_def)
qed

section \<open>Properties of the linked print\<close>

lemma str_int_40: "str_int 40 = ''40''"
  by code_simp

lemma print_without_frames:
  "print depth m rt \<lparr>supports_frames = False, callers = cs\<rparr> str args sep end' file flush
     scheme out = Inl RecursionError"
proof (induction depth arbitrary: cs scheme)
  case 0
  show ?case by simp
next
  case (Suc depth)
  then show ?case
    by (simp add: currentframe_def)
qed

lemma print_without_caller:
  "print (Suc (Suc depth)) m rt \<lparr>supports_frames = True, callers = []\<rparr> str args sep end'
     file flush scheme out =
   Inr (out @ [\<lparr>w_stream = (case file of
                              None \<Rightarrow> Stdout
                            | Some f \<Rightarrow> if truthy f then f else Stdout),
                 w_data = hyperlink (join sep (map str args))
                            (SCHEME m @ ''://file/''
                               @ str_path (resolve rt (resolve rt (Path (module_file m))))
                               @ '':40'')
                          @ end',
                 w_flush = flush\<rparr>])"
  by (simp add: currentframe_def getouterframes_def builtins_print_def hyperlink_to_path_def
      hyperlink_to_path_url_def scheme_arg_def str_int_40)

text \<open>
  C3, evaluated on the code. The fallback of \<open>print\<close> calls \<open>print\<close> itself, not the
  built-in one. Where the interpreter gives no current frame, every call falls back
  again, at any depth, and the call ends in \<open>RecursionError\<close> with nothing written.
  Where there is no frame above the function's own, the second call finds the first one
  as its caller and writes the text hyperlinked to line 40 of the module, with the
  default scheme. In neither case is the result the plain write of the built-in
  \<open>print\<close>.
\<close>

theorem print_fallback_calls_itself:
  "print depth m rt \<lparr>supports_frames = False, callers = cs\<rparr> str args sep end' file flush
     scheme out = Inl RecursionError
   \<and> print depth m rt \<lparr>supports_frames = False, callers = cs\<rparr> str args sep end' file flush
       scheme out \<noteq> Inr (builtins_print (map str args) sep end' file flush out)
   \<and> print (Suc (Suc depth)) m rt \<lparr>supports_frames = True, callers = []\<rparr> str args sep end'
       file flush scheme out =
     Inr (out @ [\<lparr>w_stream = (case file of
                              None \<Rightarrow> Stdout
                            | Some f \<Rightarrow> if truthy f then f else Stdout),
                   w_data = hyperlink (join sep (map str args))
                              (SCHEME m @ ''://file/''
                                 @ str_path (resolve rt (resolve rt (Path (module_file m))))
                                 @ '':40'')
                            @ end',
                   w_flush = flush\<rparr>])
   \<and> print (Suc (Suc depth)) m rt \<lparr>supports_frames = True, callers = []\<rparr> str args sep end'
       file flush scheme out \<noteq> Inr (builtins_print (map str args) sep end' file flush out)"
proof (intro conjI)
  show "print depth m rt \<lparr>supports_frames = False, callers = cs\<rparr> str args sep end' file flush
     scheme out = Inl RecursionError"
    by (rule print_without_frames)
  show "print depth m rt \<lparr>supports_frames = False, callers = cs\<rparr> str args sep end' file flush
       scheme out \<noteq> Inr (builtins_print (map str args) sep end' file flush out)"
    by (simp add: print_without_frames)
  show "print (Suc (Suc depth)) m rt \<lparr>supports_frames = True, callers = []\<rparr> str args sep end'
       file flush scheme out =
     Inr (out @ [\<lparr>w_stream = (case file of
                              None \<Rightarrow> Stdout
                            | Some f \<Rightarrow> if truthy f then f else Stdout),
                   w_data = hyperlink (join sep (map str args))
                              (SCHEME m @ ''://file/''
                                 @ str_path (resolve rt (resolve rt (Path (module_file m))))
                                 @ '':40'')
                            @ end',
                   w_flush = flush\<rparr>])"
    by (rule print_without_caller)
  have "hyperlink (join sep (map str args))
          (SCHEME m @ ''://file/'' @ str_path (resolve rt (resolve rt (Path (module_file m))))
             @ '':40'')
        \<noteq> join sep (map str args)"
    by (simp add: hyperlink_def osc_def)
  then show "print (Suc (Suc depth)) m rt \<lparr>supports_frames = True, callers = []\<rparr> str args sep
       end' file flush scheme out \<noteq> Inr (builtins_print (map str args) sep end' file flush out)"
    unfolding print_without_caller by (simp add: builtins_print_def)
qed

end
